theory Spec2Isabelle
  imports Main "HOL-Library.Word"
begin

section \<open>Values and records of setup.service\<close>

text \<open>
  The service keeps free-form data (\<^verbatim>\<open>Record<string, unknown>\<close>) that travels through
  YAML and JSON. Such a value is modelled as a JSON value; numbers are integers here, since
  no operation of the service computes with them.
\<close>

datatype jvalue =
    JNull
  | JBool bool
  | JNum int
  | JStr string
  | JArr "jvalue list"
  | JObj "(string \<times> jvalue) list"

record RoleShortcut =
  sc_name :: string
  sc_command :: string
  sc_description :: "string option"

text \<open>\<^verbatim>\<open>interface RoleDefinition\<close>: every field is optional, \<open>None\<close> is \<^verbatim>\<open>undefined\<close>.\<close>

record RoleDefinition =
  rd_description :: "string option"
  rd_shortcuts :: "RoleShortcut list option"
  rd_templates :: "string list option"
  rd_snippets :: "string list option"
  rd_instructions :: "string list option"
  rd_config :: "(string \<rightharpoonup> jvalue) option"

record HistoryEntry =
  he_role :: string
  he_appliedAt :: string

text \<open>
  \<^verbatim>\<open>interface AppneuralConfig\<close>. The field \<^verbatim>\<open>healthChecks\<close> is declared
  \<^verbatim>\<open>string[]\<close>, but \<^verbatim>\<open>applyRoleSetup\<close> stores there whatever the role's
  \<^verbatim>\<open>config.healthChecks\<close> holds (the cast \<^verbatim>\<open>as string[] | undefined\<close> checks nothing),
  so the field carries a JSON value.
\<close>

record AppneuralConfig =
  cfg_role :: "string option"
  cfg_shortcuts :: "RoleShortcut list option"
  cfg_instructions :: "string list option"
  cfg_templates :: "string list option"
  cfg_snippets :: "string list option"
  cfg_settings :: "(string \<rightharpoonup> jvalue) option"
  cfg_healthChecks :: "jvalue option"
  cfg_history :: "HistoryEntry list option"
  cfg_updatedAt :: "string option"

record RoleSetupResult =
  rs_role :: string
  rs_shortcuts :: "RoleShortcut list"
  rs_templates :: "string list"
  rs_snippets :: "string list"
  rs_instructions :: "string list"

datatype PackageManager = Pnpm | Yarn | Npm

datatype DockerComposeCommand = Docker | DockerCompose

record HealthCheck =
  hc_url :: jvalue
  hc_healthy :: bool
  hc_status :: "nat option"

record LocalSetupResult =
  ls_packageManager :: PackageManager
  ls_envGenerated :: bool
  ls_dockerServices :: "string list"
  ls_migrationsExecuted :: bool
  ls_seedersExecuted :: bool
  ls_healthChecks :: "HealthCheck list"

text \<open>The errors the service throws or lets through.\<close>

datatype error =
    ValidationError string "(string \<times> string) list"
  | AppneuralError string
  | ExecaError string "string list"
  | YamlParseError
  | SyntaxError
  | TypeError
  | ENOENT

section \<open>The world outside the process\<close>

text \<open>
  The paths the service builds with \<^verbatim>\<open>path.join\<close>, one constructor for each root constant
  and each keyed location. Distinct constructors stand for distinct files.
\<close>

datatype path =
    ROLES_FILE
  | CONFIG_FILE
  | EnvExamplePath
  | EnvPath
  | PnpmLockPath
  | YarnLockPath
  | InternalTemplate string
  | InternalSnippet string
  | GLOBAL_TEMPLATE_ROOT
  | GLOBAL_SNIPPET_ROOT
  | GlobalTemplate string string
  | GlobalSnippet string
  | GlobalSnippetDir string

text \<open>Every call that leaves the process is recorded, in order.\<close>

datatype event =
    PathExists path
  | ReadFile path
  | WriteFile path
  | EnsureDir path
  | CopyDirectory path path
  | CopyFile path path
  | Exec string "string list"
  | Fetch jvalue

text \<open>
  What \<^verbatim>\<open>appneural.roles.yaml\<close> holds after \<^verbatim>\<open>YAML.parse\<close>: the file may be absent, may
  fail to parse, or parses to a document whose \<^verbatim>\<open>roles\<close> mapping is \<open>None\<close> when the
  document or the mapping is missing. A manifest is the list of its own entries.
\<close>

type_synonym manifest = "(string \<times> RoleDefinition) list"

datatype roles_source = RolesAbsent | RolesMalformed | RolesParsed "manifest option"

text \<open>What \<^verbatim>\<open>appneural.config.json\<close> holds after \<^verbatim>\<open>JSON.parse\<close>.\<close>

datatype config_source = ConfigAbsent | ConfigMalformed | ConfigParsed AppneuralConfig

text \<open>
  The answer to one \<^verbatim>\<open>fetch\<close>: response headers after some milliseconds with a status
  code, or a transport error.
\<close>

datatype fetch_outcome = Responded nat nat | TransportError

record world =
  roles_file :: roles_source
  config_file :: config_source
  env_example :: "string option"
  env_file :: "string option"
  pnpm_lock :: bool
  yarn_lock :: bool
  internal_templates :: "string \<rightharpoonup> string"
  internal_snippets :: "string \<rightharpoonup> string"
  global_template_root :: bool
  global_snippet_root :: bool
  global_templates :: "string \<times> string \<rightharpoonup> string"
  global_snippets :: "string \<rightharpoonup> string"
  execa_ok :: "string \<Rightarrow> string list \<Rightarrow> bool"
  fetch_reply :: "jvalue \<Rightarrow> fetch_outcome"
  clock :: "nat \<Rightarrow> string"
  ticks :: nat
  random_source :: "nat \<Rightarrow> 8 word"
  random_pos :: nat
  os_EOL :: string
  trace :: "event list"

text \<open>
  An asynchronous function of the service is a function of the world that returns either
  the error it throws or its value, together with the world it leaves behind.
\<close>

type_synonym 'a io = "world \<Rightarrow> (error + 'a) \<times> world"

definition ret :: "'a \<Rightarrow> 'a io" where
  "ret x = (\<lambda>w. (Inr x, w))"

definition throw :: "error \<Rightarrow> 'a io" where
  "throw e = (\<lambda>w. (Inl e, w))"

definition bind :: "'a io \<Rightarrow> ('a \<Rightarrow> 'b io) \<Rightarrow> 'b io" where
  "bind m f = (\<lambda>w. case m w of (Inl e, w') \<Rightarrow> (Inl e, w') | (Inr x, w') \<Rightarrow> f x w')"

definition emit :: "event \<Rightarrow> unit io" where
  "emit ev = (\<lambda>w. (Inr (), w\<lparr>trace := trace w @ [ev]\<rparr>))"

text \<open>\<^verbatim>\<open>for (const x of xs) { await body(x); }\<close>: the first throw ends the loop.\<close>

fun for_each :: "('a \<Rightarrow> unit io) \<Rightarrow> 'a list \<Rightarrow> unit io" where
  "for_each body [] = ret ()"
| "for_each body (x # xs) = bind (body x) (\<lambda>_. for_each body xs)"

text \<open>\<^verbatim>\<open>x ?? d\<close> on an optional field.\<close>

fun nullish_or :: "'a option \<Rightarrow> 'a \<Rightarrow> 'a" where
  "nullish_or None d = d"
| "nullish_or (Some x) d = x"

subsection \<open>The helpers of the shared package and of the Node library\<close>

text \<open>
  \<^verbatim>\<open>pathExists\<close>, \<^verbatim>\<open>ensureDir\<close> and \<^verbatim>\<open>copyDirectory\<close> come from the shared package,
  \<^verbatim>\<open>fs.copyFile\<close>, \<^verbatim>\<open>execa\<close> and \<^verbatim>\<open>new Date()\<close> from the platform. They act on the
  world as their names say.
\<close>

fun exists_in :: "world \<Rightarrow> path \<Rightarrow> bool" where
  "exists_in w ROLES_FILE = (roles_file w \<noteq> RolesAbsent)"
| "exists_in w CONFIG_FILE = (config_file w \<noteq> ConfigAbsent)"
| "exists_in w EnvExamplePath = (env_example w \<noteq> None)"
| "exists_in w EnvPath = (env_file w \<noteq> None)"
| "exists_in w PnpmLockPath = pnpm_lock w"
| "exists_in w YarnLockPath = yarn_lock w"
| "exists_in w (InternalTemplate k) = (internal_templates w k \<noteq> None)"
| "exists_in w (InternalSnippet k) = (internal_snippets w k \<noteq> None)"
| "exists_in w GLOBAL_TEMPLATE_ROOT = global_template_root w"
| "exists_in w GLOBAL_SNIPPET_ROOT = global_snippet_root w"
| "exists_in w (GlobalTemplate r k) = (global_templates w (r, k) \<noteq> None)"
| "exists_in w (GlobalSnippet k) = (global_snippets w k \<noteq> None)"
| "exists_in w (GlobalSnippetDir k) = global_snippet_root w"

definition pathExists :: "path \<Rightarrow> bool io" where
  "pathExists p = bind (emit (PathExists p)) (\<lambda>_ w. (Inr (exists_in w p), w))"

fun ensured :: "path \<Rightarrow> world \<Rightarrow> world" where
  "ensured GLOBAL_TEMPLATE_ROOT w = w\<lparr>global_template_root := True\<rparr>"
| "ensured GLOBAL_SNIPPET_ROOT w = w\<lparr>global_snippet_root := True\<rparr>"
| "ensured (GlobalSnippetDir k) w = w\<lparr>global_snippet_root := True\<rparr>"
| "ensured p w = w"

definition ensureDir :: "path \<Rightarrow> unit io" where
  "ensureDir p = bind (emit (EnsureDir p)) (\<lambda>_ w. (Inr (), ensured p w))"

text \<open>
  A copy puts the content of the source under the destination. The service copies template
  directories and snippet files from the internal roots to the global ones only.
\<close>

fun copied :: "path \<Rightarrow> path \<Rightarrow> world \<Rightarrow> world" where
  "copied (InternalTemplate k) (GlobalTemplate r d) w =
     w\<lparr>global_templates := (global_templates w)((r, d) := internal_templates w k)\<rparr>"
| "copied (InternalSnippet k) (GlobalSnippet d) w =
     w\<lparr>global_snippets := (global_snippets w)(d := internal_snippets w k)\<rparr>"
| "copied source destination w = w"

definition copyDirectory :: "path \<Rightarrow> path \<Rightarrow> unit io" where
  "copyDirectory source destination =
     bind (emit (CopyDirectory source destination)) (\<lambda>_ w. (Inr (), copied source destination w))"

definition copyFile :: "path \<Rightarrow> path \<Rightarrow> unit io" where
  "copyFile source destination =
     bind (emit (CopyFile source destination)) (\<lambda>_ w. (Inr (), copied source destination w))"

text \<open>\<^verbatim>\<open>new Date().toISOString()\<close>: each reading of the clock is the next tick.\<close>

definition now :: "string io" where
  "now = (\<lambda>w. (Inr (clock w (ticks w)), w\<lparr>ticks := Suc (ticks w)\<rparr>))"

text \<open>\<^verbatim>\<open>await execa(cmd, args, ...)\<close> rejects when the command cannot run or exits non-zero.\<close>

definition execa :: "string \<Rightarrow> string list \<Rightarrow> unit io" where
  "execa cmd args = bind (emit (Exec cmd args)) (\<lambda>_ w.
     if execa_ok w cmd args then (Inr (), w) else (Inl (ExecaError cmd args), w))"

section \<open>Role setup\<close>

definition DEFAULT_HEALTH_ENDPOINTS :: "string list" where
  "DEFAULT_HEALTH_ENDPOINTS =
     [''http://localhost:3000/health'',
      ''http://localhost:4000/health'',
      ''http://localhost:8080/ready'']"

definition backend_dev :: RoleDefinition where
  "backend_dev = \<lparr>
     rd_description = Some ''APPNEURAL backend focused engineer stack'',
     rd_shortcuts = Some
       [\<lparr>sc_name = ''svc'', sc_command = ''appneural microservice create'',
          sc_description = Some ''Scaffold Nest microservice''\<rparr>,
        \<lparr>sc_name = ''repo'', sc_command = ''appneural repo create'',
          sc_description = Some ''Create GitHub repository''\<rparr>],
     rd_templates = Some [''nest-service/basic'', ''dto-crud/basic'', ''rest-api-module/core''],
     rd_snippets = Some [''database-connection''],
     rd_instructions = Some
       [''Use APPNEURAL microservice generator for each bounded context'',
        ''Follow the DTO CRUD template to keep transports consistent''],
     rd_config = Some
       [''stack'' \<mapsto> JStr ''nest'',
        ''healthChecks'' \<mapsto> JArr (map JStr DEFAULT_HEALTH_ENDPOINTS)]\<rparr>"

definition frontend_dev :: RoleDefinition where
  "frontend_dev = \<lparr>
     rd_description = Some ''APPNEURAL frontend experience'',
     rd_shortcuts = Some
       [\<lparr>sc_name = ''ui'', sc_command = ''appneural ui add'',
          sc_description = Some ''Add UI component''\<rparr>,
        \<lparr>sc_name = ''page'', sc_command = ''appneural generate react-page/dashboard'',
          sc_description = Some ''Generate React page''\<rparr>],
     rd_templates = Some [''react-page/dashboard''],
     rd_snippets = Some [''apollo-client''],
     rd_instructions = Some
       [''Leverage APPNEURAL UI kit for consistent look'',
        ''Use the page generator for dashboards''],
     rd_config = Some [''stack'' \<mapsto> JStr ''react'']\<rparr>"

definition mobile_dev :: RoleDefinition where
  "mobile_dev = \<lparr>
     rd_description = Some ''APPNEURAL mobile stack'',
     rd_shortcuts = Some
       [\<lparr>sc_name = ''rn'', sc_command = ''appneural new react-native-app'',
          sc_description = Some ''Create RN app''\<rparr>,
        \<lparr>sc_name = ''sdk'', sc_command = ''appneural sdk generate mobile'',
          sc_description = Some ''Generate mobile SDK''\<rparr>],
     rd_templates = Some [''react-page/mobile''],
     rd_snippets = Some [''mobile-storage''],
     rd_instructions = Some
       [''Use APPNEURAL Blueprint generator for RN apps'',
        ''Sync native modules through SDK command''],
     rd_config = Some [''stack'' \<mapsto> JStr ''react-native'']\<rparr>"

definition fullstack_dev :: RoleDefinition where
  "fullstack_dev = \<lparr>
     rd_description = Some ''APPNEURAL fullstack role'',
     rd_shortcuts = Some
       [\<lparr>sc_name = ''fullstack'', sc_command = ''appneural new webapp'',
          sc_description = Some ''Create webapp''\<rparr>,
        \<lparr>sc_name = ''svc'', sc_command = ''appneural new nest-microservice'',
          sc_description = Some ''Create Nest service''\<rparr>],
     rd_templates = Some [''nest-service/basic'', ''react-page/dashboard''],
     rd_snippets = Some [''fullstack-testing''],
     rd_instructions = Some
       [''Generate paired backend/frontend modules'',
        ''Adopt shared DTO patterns''],
     rd_config = Some [''stack'' \<mapsto> JStr ''fullstack'']\<rparr>"

definition devops :: RoleDefinition where
  "devops = \<lparr>
     rd_description = Some ''APPNEURAL DevOps automation'',
     rd_shortcuts = Some
       [\<lparr>sc_name = ''cloud'', sc_command = ''appneural cloud init --provider aws'',
          sc_description = Some ''Init infra''\<rparr>,
        \<lparr>sc_name = ''plan'', sc_command = ''appneural cloud plan dev'',
          sc_description = Some ''Plan dev env''\<rparr>],
     rd_templates = Some [''microservice-basic/base''],
     rd_snippets = Some [''cicd-pipeline''],
     rd_instructions = Some
       [''Keep infra modules in sync across envs'',
        ''Use the quality suite before shipping''],
     rd_config = Some
       [''stack'' \<mapsto> JStr ''devops'',
        ''healthChecks'' \<mapsto> JArr (map JStr DEFAULT_HEALTH_ENDPOINTS)]\<rparr>"

definition DEFAULT_ROLES :: manifest where
  "DEFAULT_ROLES =
     [(''backend-dev'', backend_dev),
      (''frontend-dev'', frontend_dev),
      (''mobile-dev'', mobile_dev),
      (''fullstack-dev'', fullstack_dev),
      (''devops'', devops)]"

text \<open>The object \<^verbatim>\<open>{}\<close> read as an \<^verbatim>\<open>AppneuralConfig\<close>.\<close>

definition empty_config :: AppneuralConfig where
  "empty_config = \<lparr>cfg_role = None, cfg_shortcuts = None, cfg_instructions = None,
     cfg_templates = None, cfg_snippets = None, cfg_settings = None,
     cfg_healthChecks = None, cfg_history = None, cfg_updatedAt = None\<rparr>"

definition readAppneuralConfig :: "AppneuralConfig io" where
  "readAppneuralConfig =
     bind (pathExists CONFIG_FILE) (\<lambda>ex.
       if \<not> ex then ret empty_config
       else
         bind (emit (ReadFile CONFIG_FILE)) (\<lambda>_ w.
           case config_file w of
             ConfigParsed c \<Rightarrow> (Inr c, w)
           | _ \<Rightarrow> (Inl SyntaxError, w)))"

definition writeAppneuralConfig :: "AppneuralConfig \<Rightarrow> unit io" where
  "writeAppneuralConfig config =
     bind (emit (WriteFile CONFIG_FILE)) (\<lambda>_ w. (Inr (), w\<lparr>config_file := ConfigParsed config\<rparr>))"

definition loadRolesManifest :: "manifest io" where
  "loadRolesManifest =
     bind (pathExists ROLES_FILE) (\<lambda>ex.
       if \<not> ex then ret DEFAULT_ROLES
       else
         bind (emit (ReadFile ROLES_FILE)) (\<lambda>_ w.
           case roles_file w of
             RolesParsed parsed \<Rightarrow>
               (case parsed of
                  None \<Rightarrow> (Inr DEFAULT_ROLES, w)
                | Some roles \<Rightarrow> if length roles = 0 then (Inr DEFAULT_ROLES, w) else (Inr roles, w))
           | _ \<Rightarrow> (Inl YamlParseError, w)))"

definition copyTemplateToGlobal :: "string \<Rightarrow> string \<Rightarrow> unit io" where
  "copyTemplateToGlobal role templateKey =
     bind (pathExists (InternalTemplate templateKey)) (\<lambda>ex.
       if \<not> ex then
         throw (ValidationError ''APPNEURAL role template missing'' [(''templateKey'', templateKey)])
       else copyDirectory (InternalTemplate templateKey) (GlobalTemplate role templateKey))"

definition copySnippetToGlobal :: "string \<Rightarrow> unit io" where
  "copySnippetToGlobal snippetKey =
     bind (pathExists (InternalSnippet snippetKey)) (\<lambda>ex.
       if \<not> ex then
         throw (ValidationError ''APPNEURAL snippet missing'' [(''snippetKey'', snippetKey)])
       else
         bind (ensureDir (GlobalSnippetDir snippetKey)) (\<lambda>_.
           copyFile (InternalSnippet snippetKey) (GlobalSnippet snippetKey)))"

text \<open>
  \<^verbatim>\<open>manifest[role]\<close> is a property read on a plain object: it finds an own entry, and
  otherwise whatever \<^verbatim>\<open>Object.prototype\<close> holds under that name. The inherited members are
  built-in functions (and the prototype object itself under \<^verbatim>\<open>__proto__\<close>): each is truthy
  and has none of the fields of a role definition, so that read as a \<^verbatim>\<open>RoleDefinition\<close>
  every field is \<^verbatim>\<open>undefined\<close>.
\<close>

definition Object_prototype_names :: "string list" where
  "Object_prototype_names =
     [''constructor'', ''__defineGetter__'', ''__defineSetter__'', ''hasOwnProperty'',
      ''__lookupGetter__'', ''__lookupSetter__'', ''isPrototypeOf'', ''propertyIsEnumerable'',
      ''toString'', ''valueOf'', ''__proto__'', ''toLocaleString'']"

definition inherited_member :: RoleDefinition where
  "inherited_member = \<lparr>rd_description = None, rd_shortcuts = None, rd_templates = None,
     rd_snippets = None, rd_instructions = None, rd_config = None\<rparr>"

definition manifest_get :: "manifest \<Rightarrow> string \<Rightarrow> RoleDefinition option" where
  "manifest_get m role =
     (case map_of m role of
        Some d \<Rightarrow> Some d
      | None \<Rightarrow> if role \<in> set Object_prototype_names then Some inherited_member else None)"

text \<open>\<^verbatim>\<open>definition.config?.healthChecks\<close> and the spread of \<^verbatim>\<open>definition.config ?? {}\<close>.\<close>

definition config_healthChecks :: "RoleDefinition \<Rightarrow> jvalue option" where
  "config_healthChecks d = (case rd_config d of None \<Rightarrow> None | Some c \<Rightarrow> c ''healthChecks'')"

text \<open>\<^verbatim>\<open>a ?? b\<close> where the left side may also be \<^verbatim>\<open>null\<close>.\<close>

fun nullish_else :: "jvalue option \<Rightarrow> jvalue option \<Rightarrow> jvalue option" where
  "nullish_else None b = b"
| "nullish_else (Some JNull) b = b"
| "nullish_else (Some v) b = Some v"

text \<open>
  The object literal \<^verbatim>\<open>nextConfig\<close> of \<^verbatim>\<open>applyRoleSetup\<close>: the current config spread,
  then the nine fields set. \<^verbatim>\<open>updatedHistory\<close> is the current history with the new entry
  pushed.
\<close>

definition nextConfig ::
  "string \<Rightarrow> RoleDefinition \<Rightarrow> AppneuralConfig \<Rightarrow> string \<Rightarrow> string \<Rightarrow> AppneuralConfig" where
  "nextConfig role defn currentConfig appliedAt updatedAt =
     currentConfig\<lparr>
       cfg_role := Some role,
       cfg_shortcuts := Some (nullish_or (rd_shortcuts defn) []),
       cfg_instructions := Some (nullish_or (rd_instructions defn) []),
       cfg_templates := Some (nullish_or (rd_templates defn) []),
       cfg_snippets := Some (nullish_or (rd_snippets defn) []),
       cfg_settings := Some (nullish_or (cfg_settings currentConfig) Map.empty
                              ++ nullish_or (rd_config defn) Map.empty),
       cfg_healthChecks := nullish_else (config_healthChecks defn) (cfg_healthChecks currentConfig),
       cfg_history := Some (nullish_or (cfg_history currentConfig) []
                              @ [\<lparr>he_role = role, he_appliedAt = appliedAt\<rparr>]),
       cfg_updatedAt := Some updatedAt\<rparr>"

text \<open>
  \<^verbatim>\<open>applyRoleSetup\<close>. The log lines written through \<^verbatim>\<open>logger.info\<close> after the config is
  persisted change nothing the service reads back and are left out.
\<close>

definition applyRoleSetup :: "string \<Rightarrow> RoleSetupResult io" where
  "applyRoleSetup role =
     bind loadRolesManifest (\<lambda>manifest.
       case manifest_get manifest role of
         None \<Rightarrow> throw (ValidationError ''APPNEURAL role not found'' [(''role'', role)])
       | Some defn \<Rightarrow>
           bind (ensureDir GLOBAL_TEMPLATE_ROOT) (\<lambda>_.
           bind (ensureDir GLOBAL_SNIPPET_ROOT) (\<lambda>_.
           bind (for_each (copyTemplateToGlobal role) (nullish_or (rd_templates defn) [])) (\<lambda>_.
           bind (for_each copySnippetToGlobal (nullish_or (rd_snippets defn) [])) (\<lambda>_.
           bind readAppneuralConfig (\<lambda>currentConfig.
           bind now (\<lambda>appliedAt.
           bind now (\<lambda>updatedAt.
           bind (writeAppneuralConfig (nextConfig role defn currentConfig appliedAt updatedAt)) (\<lambda>_.
           ret \<lparr>rs_role = role,
                rs_shortcuts = nullish_or (rd_shortcuts defn) [],
                rs_templates = nullish_or (rd_templates defn) [],
                rs_snippets = nullish_or (rd_snippets defn) [],
                rs_instructions = nullish_or (rd_instructions defn) []\<rparr>)))))))))"

section \<open>Local environment setup\<close>

text \<open>\<^verbatim>\<open>try { await m; return true } catch (_error) { return false }\<close>\<close>

definition succeeds :: "unit io \<Rightarrow> bool io" where
  "succeeds m = (\<lambda>w. case m w of (Inl e, w') \<Rightarrow> (Inr False, w') | (Inr u, w') \<Rightarrow> (Inr True, w'))"

definition isCommandAvailable :: "string \<Rightarrow> string list option \<Rightarrow> bool io" where
  "isCommandAvailable cmd args = succeeds (execa cmd (nullish_or args [''--version'']))"

definition verifyDockerCompose :: "DockerComposeCommand io" where
  "verifyDockerCompose = (\<lambda>w.
     case execa ''docker'' [''compose'', ''version''] w of
       (Inr u, w') \<Rightarrow> (Inr Docker, w')
     | (Inl e, w') \<Rightarrow> bind (execa ''docker-compose'' [''--version'']) (\<lambda>_. ret DockerCompose) w')"

definition detectPackageManager :: "PackageManager io" where
  "detectPackageManager =
     bind (pathExists PnpmLockPath) (\<lambda>pnpmLock.
       if pnpmLock then
         bind (isCommandAvailable ''pnpm'' None) (\<lambda>ok. ret (if ok then Pnpm else Npm))
       else
         bind (pathExists YarnLockPath) (\<lambda>yarnLock.
           if yarnLock then
             bind (isCommandAvailable ''yarn'' None) (\<lambda>ok. ret (if ok then Yarn else Npm))
           else ret Npm))"

definition installDependencies :: "PackageManager \<Rightarrow> unit io" where
  "installDependencies manager =
     (if manager = Pnpm then execa ''pnpm'' [''install'']
      else if manager = Yarn then execa ''yarn'' [''install'']
      else execa ''npm'' [''install''])"

subsection \<open>The \<^verbatim>\<open>.env\<close> file\<close>

text \<open>
  File contents are ASCII strings. \<^verbatim>\<open>split(/\r?\n/)\<close> breaks at every line feed and at
  every carriage return that a line feed follows; a text that ends in a line break has an
  empty last piece.
\<close>

definition LF :: char where "LF = CHR 0x0A"
definition CR :: char where "CR = CHR 0x0D"

fun cons_first :: "char \<Rightarrow> string list \<Rightarrow> string list" where
  "cons_first c [] = [[c]]"
| "cons_first c (l # ls) = (c # l) # ls"

fun split_lines :: "string \<Rightarrow> string list" where
  "split_lines [] = [[]]"
| "split_lines [c] = (if c = LF then [[], []] else [[c]])"
| "split_lines (c # d # cs) =
     (if c = LF then [] # split_lines (d # cs)
      else if c = CR \<and> d = LF then [] # split_lines cs
      else cons_first c (split_lines (d # cs)))"

text \<open>\<^verbatim>\<open>String.prototype.trim\<close> on ASCII: tab, line feed, vertical tab, form feed,
  carriage return and space are dropped at both ends.\<close>

definition is_space :: "char \<Rightarrow> bool" where
  "is_space c \<longleftrightarrow> c \<in> set [CHR 0x09, CHR 0x0A, CHR 0x0B, CHR 0x0C, CHR 0x0D, CHR 0x20]"

definition trim :: "string \<Rightarrow> string" where
  "trim s = rev (dropWhile is_space (rev (dropWhile is_space s)))"

fun startsWith :: "string \<Rightarrow> string \<Rightarrow> bool" where
  "startsWith s [] = True"
| "startsWith [] (p # ps) = False"
| "startsWith (c # cs) (p # ps) = (c = p \<and> startsWith cs ps)"

text \<open>\<^verbatim>\<open>line.split("=")\<close> and \<^verbatim>\<open>rest.join("=")\<close>.\<close>

fun split_on :: "char \<Rightarrow> string \<Rightarrow> string list" where
  "split_on sep [] = [[]]"
| "split_on sep (c # cs) = (if c = sep then [] # split_on sep cs else cons_first c (split_on sep cs))"

fun join :: "string \<Rightarrow> string list \<Rightarrow> string" where
  "join sep [] = []"
| "join sep [x] = x"
| "join sep (x # y # ys) = x @ sep @ join sep (y # ys)"

text \<open>
  A \<^verbatim>\<open>Record<string, string>\<close> built by assignment is the list of its own entries in the
  order of creation. \<^verbatim>\<open>result[key] = value\<close> replaces the value of an entry in place or
  appends a new entry; under the key \<^verbatim>\<open>__proto__\<close> it calls the inherited setter, which
  ignores a string. \<^verbatim>\<open>Object.entries\<close> lists the keys that are array indices first, in
  ascending order, then the other keys in the order of creation.
\<close>

fun assign :: "string \<Rightarrow> string \<Rightarrow> (string \<times> string) list \<Rightarrow> (string \<times> string) list" where
  "assign k v [] = [(k, v)]"
| "assign k v ((k', v') # es) = (if k' = k then (k, v) # es else (k', v') # assign k v es)"

definition set_property :: "string \<Rightarrow> string \<Rightarrow> (string \<times> string) list \<Rightarrow> (string \<times> string) list" where
  "set_property k v obj = (if k = ''__proto__'' then obj else assign k v obj)"

definition is_digit :: "char \<Rightarrow> bool" where
  "is_digit c \<longleftrightarrow> c \<in> set ''0123456789''"

definition digit_value :: "char \<Rightarrow> nat" where
  "digit_value c = of_char c - 48"

definition decimal_value :: "string \<Rightarrow> nat" where
  "decimal_value s = foldl (\<lambda>n c. 10 * n + digit_value c) 0 s"

definition is_array_index :: "string \<Rightarrow> bool" where
  "is_array_index k \<longleftrightarrow>
     k \<noteq> [] \<and> list_all is_digit k \<and> (k = ''0'' \<or> hd k \<noteq> CHR ''0'') \<and>
     decimal_value k < 2 ^ 32 - 1"

definition Object_entries :: "(string \<times> string) list \<Rightarrow> (string \<times> string) list" where
  "Object_entries obj =
     sort_key (\<lambda>e. decimal_value (fst e)) (filter (\<lambda>e. is_array_index (fst e)) obj)
     @ filter (\<lambda>e. \<not> is_array_index (fst e)) obj"

definition parseEnv :: "string \<Rightarrow> (string \<times> string) list" where
  "parseEnv content =
     foldl (\<lambda>result line.
              case split_on (CHR ''='') line of
                key # rest \<Rightarrow> set_property key (join ''='' rest) result
              | [] \<Rightarrow> result)
       []
       (filter (\<lambda>line. line \<noteq> [] \<and> \<not> startsWith line ''#'')
          (map trim (split_lines content)))"

definition serializeEnv :: "string \<Rightarrow> (string \<times> string) list \<Rightarrow> string" where
  "serializeEnv eol env = join eol (map (\<lambda>(key, v). key @ ''='' @ v) (Object_entries env))"

text \<open>\<^verbatim>\<open>crypto.randomBytes(n)\<close> takes the next \<open>n\<close> bytes of the random source;
  \<^verbatim>\<open>toString("hex")\<close> writes each byte as two lower-case digits.\<close>

definition randomBytes :: "nat \<Rightarrow> 8 word list io" where
  "randomBytes n = (\<lambda>w.
     (Inr (map (random_source w) [random_pos w ..< random_pos w + n]),
      w\<lparr>random_pos := random_pos w + n\<rparr>))"

definition hex_digit :: "nat \<Rightarrow> char" where
  "hex_digit n = ''0123456789abcdef'' ! n"

definition toHex :: "8 word list \<Rightarrow> string" where
  "toHex bytes = concat (map (\<lambda>b. [hex_digit (unat b div 16), hex_digit (unat b mod 16)]) bytes)"

definition createSecret :: "nat \<Rightarrow> string io" where
  "createSecret len = bind (randomBytes len) (\<lambda>bytes. ret (take (len * 2) (toHex bytes)))"

definition readEnvExample :: "string io" where
  "readEnvExample = bind (emit (ReadFile EnvExamplePath)) (\<lambda>_ w.
     case env_example w of Some content \<Rightarrow> (Inr content, w) | None \<Rightarrow> (Inl ENOENT, w))"

definition writeEnv :: "string \<Rightarrow> unit io" where
  "writeEnv content =
     bind (emit (WriteFile EnvPath)) (\<lambda>_ w. (Inr (), w\<lparr>env_file := Some content\<rparr>))"

definition generateEnvFile :: "bool io" where
  "generateEnvFile =
     bind (pathExists EnvExamplePath) (\<lambda>ex.
       if \<not> ex then ret False
       else
         bind readEnvExample (\<lambda>example.
         bind (createSecret 32) (\<lambda>jwt.
         bind (createSecret 32) (\<lambda>key.
         bind (\<lambda>w. (Inr (os_EOL w), w)) (\<lambda>eol.
         bind (writeEnv (serializeEnv eol
                 (set_property ''ENCRYPTION_KEY'' key
                   (set_property ''JWT_SECRET'' jwt (parseEnv example))))) (\<lambda>_.
         ret True))))))"

subsection \<open>Scripts, services and health checks\<close>

definition runScriptIfPresent :: "PackageManager \<Rightarrow> string \<Rightarrow> bool io" where
  "runScriptIfPresent manager script =
     succeeds
       (if manager = Pnpm then execa ''pnpm'' [''run'', script, ''--if-present'']
        else if manager = Yarn then execa ''yarn'' [''run'', script]
        else execa ''npm'' [''run'', script, ''--if-present''])"

definition compose_name :: "DockerComposeCommand \<Rightarrow> string" where
  "compose_name c = (case c of Docker \<Rightarrow> ''docker'' | DockerCompose \<Rightarrow> ''docker-compose'')"

definition startDockerServices :: "DockerComposeCommand \<Rightarrow> string list io" where
  "startDockerServices composeCommand =
     bind (execa (compose_name composeCommand)
            (if composeCommand = Docker then [''compose'', ''up'', ''-d'', ''db'', ''redis'', ''mq'']
             else [''up'', ''-d'', ''db'', ''redis'', ''mq''])) (\<lambda>_.
       ret [''db'', ''redis'', ''mq''])"

text \<open>
  \<^verbatim>\<open>config.healthChecks?.length ? config.healthChecks : DEFAULT_HEALTH_ENDPOINTS\<close>: the
  property \<^verbatim>\<open>length\<close> of the stored value (\<open>None\<close> is \<^verbatim>\<open>undefined\<close>), its truthiness, and
  what \<^verbatim>\<open>for ... of\<close> runs through (\<open>None\<close>: the value is not iterable and the loop throws).
\<close>

fun length_of :: "jvalue option \<Rightarrow> jvalue option" where
  "length_of (Some (JArr xs)) = Some (JNum (int (length xs)))"
| "length_of (Some (JStr s)) = Some (JNum (int (length s)))"
| "length_of (Some (JObj es)) = map_of es ''length''"
| "length_of _ = None"

fun truthy :: "jvalue option \<Rightarrow> bool" where
  "truthy None = False"
| "truthy (Some JNull) = False"
| "truthy (Some (JBool b)) = b"
| "truthy (Some (JNum n)) = (n \<noteq> 0)"
| "truthy (Some (JStr s)) = (s \<noteq> [])"
| "truthy (Some (JArr xs)) = True"
| "truthy (Some (JObj es)) = True"

fun iterate :: "jvalue \<Rightarrow> jvalue list option" where
  "iterate (JArr xs) = Some xs"
| "iterate (JStr s) = Some (map (\<lambda>c. JStr [c]) s)"
| "iterate _ = None"

text \<open>
  One turn of the loop: the request is aborted after 4000 milliseconds; a response sets
  \<^verbatim>\<open>response.ok\<close> for a status from 200 to 299; an abort or a transport error is caught.
\<close>

definition check_endpoint :: "jvalue \<Rightarrow> HealthCheck io" where
  "check_endpoint url = bind (emit (Fetch url)) (\<lambda>_ w.
     case fetch_reply w url of
       Responded ms status \<Rightarrow>
         if ms < 4000 then
           (Inr \<lparr>hc_url = url, hc_healthy = (200 \<le> status \<and> status \<le> 299),
                 hc_status = Some status\<rparr>, w)
         else (Inr \<lparr>hc_url = url, hc_healthy = False, hc_status = None\<rparr>, w)
     | TransportError \<Rightarrow> (Inr \<lparr>hc_url = url, hc_healthy = False, hc_status = None\<rparr>, w))"

fun check_all :: "jvalue list \<Rightarrow> HealthCheck list \<Rightarrow> HealthCheck list io" where
  "check_all [] results = ret results"
| "check_all (url # urls) results =
     bind (check_endpoint url) (\<lambda>entry. check_all urls (results @ [entry]))"

definition select_endpoints :: "jvalue option \<Rightarrow> jvalue" where
  "select_endpoints healthChecks =
     (case healthChecks of
        Some v \<Rightarrow> if truthy (length_of healthChecks) then v
                  else JArr (map JStr DEFAULT_HEALTH_ENDPOINTS)
      | None \<Rightarrow> JArr (map JStr DEFAULT_HEALTH_ENDPOINTS))"

definition performHealthChecks :: "HealthCheck list io" where
  "performHealthChecks =
     bind readAppneuralConfig (\<lambda>config.
       case iterate (select_endpoints (cfg_healthChecks config)) of
         None \<Rightarrow> throw TypeError
       | Some endpoints \<Rightarrow> check_all endpoints [])"

definition REQUIRED_TOOLS :: "(string \<times> string list option \<times> bool) list" where
  "REQUIRED_TOOLS =
     [(''node'', Some [''--version''], True),
      (''npm'', Some [''--version''], True),
      (''pnpm'', Some [''--version''], False),
      (''yarn'', Some [''--version''], False),
      (''docker'', Some [''--version''], True)]"

definition check_tool :: "string \<times> string list option \<times> bool \<Rightarrow> unit io" where
  "check_tool tool = (case tool of (name, args, required) \<Rightarrow>
     bind (isCommandAvailable name args) (\<lambda>available.
       if \<not> available \<and> required
       then throw (AppneuralError (''APPNEURAL requires '' @ name @ '' to be installed''))
       else ret ()))"

definition runLocalEnvironmentSetup :: "LocalSetupResult io" where
  "runLocalEnvironmentSetup =
     bind (for_each check_tool REQUIRED_TOOLS) (\<lambda>_.
     bind verifyDockerCompose (\<lambda>composeExecutor.
     bind detectPackageManager (\<lambda>manager.
     bind (installDependencies manager) (\<lambda>_.
     bind generateEnvFile (\<lambda>envCreated.
     bind (startDockerServices composeExecutor) (\<lambda>services.
     bind (runScriptIfPresent manager ''migrate'') (\<lambda>migrationsExecuted.
     bind (runScriptIfPresent manager ''seed'') (\<lambda>seedersExecuted.
     bind performHealthChecks (\<lambda>healthChecks.
     ret \<lparr>ls_packageManager = manager,
          ls_envGenerated = envCreated,
          ls_dockerServices = services,
          ls_migrationsExecuted = migrationsExecuted,
          ls_seedersExecuted = seedersExecuted,
          ls_healthChecks = healthChecks\<rparr>)))))))))"

section \<open>Notions used in the statements\<close>

text \<open>
  Two worlds have the same inputs when every file the service reads, every answer of the
  platform and both counters agree; only the global directories and the trace may differ.
  A step is quiet when none of the events it adds touches the config file.
\<close>

definition same_inputs :: "world \<Rightarrow> world \<Rightarrow> bool" where
  "same_inputs w w' \<longleftrightarrow>
     roles_file w' = roles_file w \<and> config_file w' = config_file w \<and>
     env_example w' = env_example w \<and> env_file w' = env_file w \<and>
     pnpm_lock w' = pnpm_lock w \<and> yarn_lock w' = yarn_lock w \<and>
     internal_templates w' = internal_templates w \<and> internal_snippets w' = internal_snippets w \<and>
     execa_ok w' = execa_ok w \<and> fetch_reply w' = fetch_reply w \<and>
     clock w' = clock w \<and> ticks w' = ticks w \<and>
     random_source w' = random_source w \<and> random_pos w' = random_pos w \<and>
     os_EOL w' = os_EOL w"

definition config_event :: "event \<Rightarrow> bool" where
  "config_event e \<longleftrightarrow> e = PathExists CONFIG_FILE \<or> e = ReadFile CONFIG_FILE \<or> e = WriteFile CONFIG_FILE"

definition quiet :: "world \<Rightarrow> world \<Rightarrow> bool" where
  "quiet w w' \<longleftrightarrow> (\<exists>evs. trace w' = trace w @ evs \<and> (\<forall>e\<in>set evs. \<not> config_event e))"

fun manifest_result :: "roles_source \<Rightarrow> error + manifest" where
  "manifest_result RolesAbsent = Inr DEFAULT_ROLES"
| "manifest_result RolesMalformed = Inl YamlParseError"
| "manifest_result (RolesParsed None) = Inr DEFAULT_ROLES"
| "manifest_result (RolesParsed (Some roles)) = Inr (if roles = [] then DEFAULT_ROLES else roles)"

fun manifest_events :: "roles_source \<Rightarrow> event list" where
  "manifest_events RolesAbsent = [PathExists ROLES_FILE]"
| "manifest_events _ = [PathExists ROLES_FILE, ReadFile ROLES_FILE]"

fun config_result :: "config_source \<Rightarrow> error + AppneuralConfig" where
  "config_result ConfigAbsent = Inr empty_config"
| "config_result ConfigMalformed = Inl SyntaxError"
| "config_result (ConfigParsed c) = Inr c"

fun config_events :: "config_source \<Rightarrow> event list" where
  "config_events ConfigAbsent = [PathExists CONFIG_FILE]"
| "config_events _ = [PathExists CONFIG_FILE, ReadFile CONFIG_FILE]"

definition template_present :: "world \<Rightarrow> string \<Rightarrow> bool" where
  "template_present w k \<longleftrightarrow> internal_templates w k \<noteq> None"

definition snippet_present :: "world \<Rightarrow> string \<Rightarrow> bool" where
  "snippet_present w k \<longleftrightarrow> internal_snippets w k \<noteq> None"

definition prepared :: "world \<Rightarrow> world" where
  "prepared w =
     snd (ensureDir GLOBAL_SNIPPET_ROOT (snd (ensureDir GLOBAL_TEMPLATE_ROOT (snd (loadRolesManifest w)))))"

definition role_result :: "string \<Rightarrow> RoleDefinition \<Rightarrow> RoleSetupResult" where
  "role_result role defn =
     \<lparr>rs_role = role,
      rs_shortcuts = nullish_or (rd_shortcuts defn) [],
      rs_templates = nullish_or (rd_templates defn) [],
      rs_snippets = nullish_or (rd_snippets defn) [],
      rs_instructions = nullish_or (rd_instructions defn) []\<rparr>"

definition persist :: "string \<Rightarrow> RoleDefinition \<Rightarrow> RoleSetupResult io" where
  "persist role defn =
     bind readAppneuralConfig (\<lambda>currentConfig.
     bind now (\<lambda>appliedAt.
     bind now (\<lambda>updatedAt.
     bind (writeAppneuralConfig (nextConfig role defn currentConfig appliedAt updatedAt)) (\<lambda>_.
     ret (role_result role defn)))))"

text \<open>
  Worlds for the examples. In \<open>bare_world\<close> nothing exists and every command and request
  fails; \<open>stocked_world\<close> adds the template directories and snippet files that the
  built-in roles list.
\<close>

definition bare_world :: world where
  "bare_world = \<lparr>
     roles_file = RolesAbsent, config_file = ConfigAbsent,
     env_example = None, env_file = None, pnpm_lock = False, yarn_lock = False,
     internal_templates = Map.empty, internal_snippets = Map.empty,
     global_template_root = False, global_snippet_root = False,
     global_templates = Map.empty, global_snippets = Map.empty,
     execa_ok = (\<lambda>cmd args. False), fetch_reply = (\<lambda>url. TransportError),
     clock = (\<lambda>n. if n = 0 then ''t0'' else if n = 1 then ''t1'' else ''t2''), ticks = 0,
     random_source = (\<lambda>n. 0), random_pos = 0,
     os_EOL = [LF], trace = []\<rparr>"

definition shipped_templates :: "string \<rightharpoonup> string" where
  "shipped_templates = map_of
     [(''nest-service/basic'', ''nest''), (''dto-crud/basic'', ''dto''),
      (''rest-api-module/core'', ''rest''), (''react-page/dashboard'', ''dash''),
      (''react-page/mobile'', ''mob''), (''microservice-basic/base'', ''ms'')]"

definition shipped_snippets :: "string \<rightharpoonup> string" where
  "shipped_snippets = map_of
     [(''database-connection'', ''db''), (''apollo-client'', ''ap''),
      (''mobile-storage'', ''st''), (''fullstack-testing'', ''ft''), (''cicd-pipeline'', ''ci'')]"

definition stocked_world :: world where
  "stocked_world = bare_world\<lparr>internal_templates := shipped_templates,
     internal_snippets := shipped_snippets\<rparr>"

text \<open>What the config file holds as settings and as history; nothing when it is absent.\<close>

definition persisted_settings :: "world \<Rightarrow> (string \<rightharpoonup> jvalue)" where
  "persisted_settings w =
     (case config_file w of
        ConfigParsed c \<Rightarrow> nullish_or (cfg_settings c) Map.empty
      | _ \<Rightarrow> Map.empty)"

definition persisted_history :: "world \<Rightarrow> HistoryEntry list" where
  "persisted_history w =
     (case config_file w of
        ConfigParsed c \<Rightarrow> nullish_or (cfg_history c) []
      | _ \<Rightarrow> [])"

text \<open>
  \<open>partial_world\<close> has one template directory only; \<open>after_backend\<close> is the world left by
  applying the role \<^verbatim>\<open>backend-dev\<close> in \<open>stocked_world\<close>.
\<close>

definition partial_world :: world where
  "partial_world = bare_world\<lparr>internal_templates := [''nest-service/basic'' \<mapsto> ''nest'']\<rparr>"

definition after_backend :: world where
  "after_backend = snd (applyRoleSetup ''backend-dev'' stocked_world)"

text \<open>A run of invocations, one after the other, each on the world the one before left.\<close>


fun apply_all :: "string list \<Rightarrow> world \<Rightarrow> (error + RoleSetupResult) list \<times> world" where
  "apply_all [] w = ([], w)"
| "apply_all (role # roles) w =
     (case applyRoleSetup role w of
        (out, w1) \<Rightarrow> (case apply_all roles w1 of (outs, w2) \<Rightarrow> (out # outs, w2)))"

definition example_env :: string where
  "example_env = ''A=1'' @ [LF] @ ''B=2'' @ [LF] @ ''#comment'' @ [LF, LF]"

definition env_world :: world where
  "env_world = bare_world\<lparr>env_example := Some example_env\<rparr>"

definition pnpm_world :: world where
  "pnpm_world = bare_world\<lparr>pnpm_lock := True, yarn_lock := True,
     execa_ok := (\<lambda>cmd args. cmd = ''pnpm'')\<rparr>"

definition yarn_world :: world where
  "yarn_world = bare_world\<lparr>yarn_lock := True, execa_ok := (\<lambda>cmd args. cmd = ''yarn'')\<rparr>"

fun detect_events :: "bool \<Rightarrow> bool \<Rightarrow> event list" where
  "detect_events True y = [PathExists PnpmLockPath, Exec ''pnpm'' [''--version'']]"
| "detect_events False True =
     [PathExists PnpmLockPath, PathExists YarnLockPath, Exec ''yarn'' [''--version'']]"
| "detect_events False False = [PathExists PnpmLockPath, PathExists YarnLockPath]"

definition detected :: "world \<Rightarrow> PackageManager" where
  "detected w =
     (if pnpm_lock w then (if execa_ok w ''pnpm'' [''--version''] then Pnpm else Npm)
      else if yarn_lock w then (if execa_ok w ''yarn'' [''--version''] then Yarn else Npm)
      else Npm)"

text \<open>What one turn of the health-check loop records for a URL.\<close>

definition entry_of :: "world \<Rightarrow> jvalue \<Rightarrow> HealthCheck" where
  "entry_of w url =
     (case fetch_reply w url of
        Responded ms status \<Rightarrow>
          if ms < 4000 then
            \<lparr>hc_url = url, hc_healthy = (200 \<le> status \<and> status \<le> 299), hc_status = Some status\<rparr>
          else \<lparr>hc_url = url, hc_healthy = False, hc_status = None\<rparr>
      | TransportError \<Rightarrow> \<lparr>hc_url = url, hc_healthy = False, hc_status = None\<rparr>)"

text \<open>
  Following the words of the claim: the stored list when it is not empty, else the three
  default endpoints.
\<close>

definition spec_endpoints :: "jvalue option \<Rightarrow> jvalue list" where
  "spec_endpoints healthChecks =
     (case healthChecks of
        Some (JArr xs) \<Rightarrow> if xs \<noteq> [] then xs else map JStr DEFAULT_HEALTH_ENDPOINTS
      | _ \<Rightarrow> map JStr DEFAULT_HEALTH_ENDPOINTS)"

definition probed_world :: world where
  "probed_world = bare_world\<lparr>
     config_file := ConfigParsed (empty_config\<lparr>cfg_healthChecks :=
        Some (JArr [JStr ''http://a.test/health'', JStr ''http://b.test/health''])\<rparr>),
     fetch_reply := (\<lambda>url. if url = JStr ''http://a.test/health'' then Responded 12 200
                            else Responded 5000 200)\<rparr>"

text \<open>
  A step is steady when it leaves the config file and the answers of the platform alone;
  a function keeps the world steady when each of its runs is a steady step.
\<close>

definition steady :: "world \<Rightarrow> world \<Rightarrow> bool" where
  "steady w w' \<longleftrightarrow>
     config_file w' = config_file w \<and> execa_ok w' = execa_ok w \<and> fetch_reply w' = fetch_reply w"

definition keeps :: "'a io \<Rightarrow> bool" where
  "keeps m \<longleftrightarrow> (\<forall>w. steady w (snd (m w)))"





section \<open>How the functions run\<close>

lemma same_inputs_refl: "same_inputs w w"
  by (simp add: same_inputs_def)

lemma same_inputs_trans: "same_inputs a b \<Longrightarrow> same_inputs b c \<Longrightarrow> same_inputs a c"
  by (simp add: same_inputs_def)

lemma quiet_refl: "quiet w w"
  by (simp add: quiet_def)

lemma quiet_trans: "quiet a b \<Longrightarrow> quiet b c \<Longrightarrow> quiet a c"
  unfolding quiet_def by (metis append.assoc set_append Un_iff)

lemma bind_Inr_iff:
  "bind m f w = (Inr y, w') \<longleftrightarrow> (\<exists>x w1. m w = (Inr x, w1) \<and> f x w1 = (Inr y, w'))"
  by (cases "m w") (auto simp: bind_def split: sum.splits)

lemma bind_Inl_iff:
  "bind m f w = (Inl e, w') \<longleftrightarrow>
     m w = (Inl e, w') \<or> (\<exists>x w1. m w = (Inr x, w1) \<and> f x w1 = (Inl e, w'))"
  by (cases "m w") (auto simp: bind_def split: sum.splits)

lemma loadRolesManifest_eq:
  "loadRolesManifest w =
     (manifest_result (roles_file w), w\<lparr>trace := trace w @ manifest_events (roles_file w)\<rparr>)"
  by (cases "roles_file w" rule: manifest_result.cases)
     (simp_all add: loadRolesManifest_def bind_def pathExists_def emit_def ret_def)

lemma readAppneuralConfig_eq:
  "readAppneuralConfig w =
     (config_result (config_file w), w\<lparr>trace := trace w @ config_events (config_file w)\<rparr>)"
  by (cases "config_file w")
     (simp_all add: readAppneuralConfig_def bind_def pathExists_def emit_def ret_def)

lemma ensureDir_eq: "ensureDir p w = (Inr (), ensured p (w\<lparr>trace := trace w @ [EnsureDir p]\<rparr>))"
  by (simp add: ensureDir_def bind_def emit_def)

lemma ensured_same: "same_inputs w (ensured p w) \<and> trace (ensured p w) = trace w \<and>
   global_templates (ensured p w) = global_templates w \<and> global_snippets (ensured p w) = global_snippets w"
  by (cases p) (simp_all add: same_inputs_def)

lemma copy_templates_run:
  assumes "for_each (copyTemplateToGlobal role) ks w = (r, w')"
  shows "same_inputs w w' \<and> quiet w w' \<and> global_snippets w' = global_snippets w \<and>
         global_template_root w' = global_template_root w \<and> global_snippet_root w' = global_snippet_root w \<and>
         (\<forall>k\<in>set (takeWhile (template_present w) ks). global_templates w' (role, k) = internal_templates w k) \<and>
         (\<forall>q. q \<notin> Pair role ` set (takeWhile (template_present w) ks) \<longrightarrow> global_templates w' q = global_templates w q) \<and>
         (case dropWhile (template_present w) ks of
            [] \<Rightarrow> r = Inr ()
          | k # rest \<Rightarrow> r = Inl (ValidationError ''APPNEURAL role template missing'' [(''templateKey'', k)]))"
  using assms
proof (induction ks arbitrary: w)
  case Nil
  then show ?case by (simp add: ret_def same_inputs_refl quiet_refl)
next
  case (Cons k ks)
  show ?case
  proof (cases "template_present w k")
    case False
    with Cons.prems show ?thesis
      by (auto simp: copyTemplateToGlobal_def bind_def pathExists_def emit_def throw_def
          template_present_def same_inputs_def quiet_def config_event_def)
  next
    case True
    define w1 where "w1 = snd (copyTemplateToGlobal role k w)"
    from True have step: "copyTemplateToGlobal role k w = (Inr (), w1)"
      and w1: "same_inputs w w1" "quiet w w1" "global_snippets w1 = global_snippets w"
        "global_template_root w1 = global_template_root w" "global_snippet_root w1 = global_snippet_root w"
        "global_templates w1 = (global_templates w)((role, k) := internal_templates w k)"
      by (auto simp: w1_def copyTemplateToGlobal_def bind_def pathExists_def emit_def throw_def
          copyDirectory_def template_present_def same_inputs_def quiet_def config_event_def)
    from Cons.prems step have rest: "for_each (copyTemplateToGlobal role) ks w1 = (r, w')"
      by (simp add: bind_def)
    have tp: "template_present w1 = template_present w"
      using w1(1) by (auto simp: template_present_def same_inputs_def fun_eq_iff)
    have it: "internal_templates w1 = internal_templates w"
      using w1(1) by (simp add: same_inputs_def)
    note IH = Cons.IH[OF rest, unfolded tp it]
    have kept: "global_templates w' (role, k) = internal_templates w k"
    proof (cases "k \<in> set (takeWhile (template_present w) ks)")
      case True
      with IH show ?thesis by blast
    next
      case False
      then have "(role, k) \<notin> Pair role ` set (takeWhile (template_present w) ks)" by auto
      with IH have "global_templates w' (role, k) = global_templates w1 (role, k)" by blast
      with w1(6) show ?thesis by simp
    qed
    have frame: "global_templates w' q = global_templates w q"
      if "q \<notin> Pair role ` set (k # takeWhile (template_present w) ks)" for q
    proof -
      from that have ne: "q \<noteq> (role, k)"
        and out: "q \<notin> Pair role ` set (takeWhile (template_present w) ks)"
        by auto
      from IH out have "global_templates w' q = global_templates w1 q" by blast
      with ne w1(6) show ?thesis by simp
    qed
    from IH w1 have "same_inputs w w'" "quiet w w'"
      by (blast intro: same_inputs_trans quiet_trans)+
    with IH w1 kept frame True show ?thesis by simp
  qed
qed


lemma copy_snippets_run:
  assumes "for_each copySnippetToGlobal ks w = (r, w')"
  shows "same_inputs w w' \<and> quiet w w' \<and> global_templates w' = global_templates w \<and>
         global_template_root w' = global_template_root w \<and>
         (\<forall>k\<in>set (takeWhile (snippet_present w) ks). global_snippets w' k = internal_snippets w k) \<and>
         (\<forall>q. q \<notin> set (takeWhile (snippet_present w) ks) \<longrightarrow> global_snippets w' q = global_snippets w q) \<and>
         (case dropWhile (snippet_present w) ks of
            [] \<Rightarrow> r = Inr ()
          | k # rest \<Rightarrow> r = Inl (ValidationError ''APPNEURAL snippet missing'' [(''snippetKey'', k)]))"
  using assms
proof (induction ks arbitrary: w)
  case Nil
  then show ?case by (simp add: ret_def same_inputs_refl quiet_refl)
next
  case (Cons k ks)
  show ?case
  proof (cases "snippet_present w k")
    case False
    with Cons.prems show ?thesis
      by (auto simp: copySnippetToGlobal_def bind_def pathExists_def emit_def throw_def
          snippet_present_def same_inputs_def quiet_def config_event_def)
  next
    case True
    define w1 where "w1 = snd (copySnippetToGlobal k w)"
    from True have step: "copySnippetToGlobal k w = (Inr (), w1)"
      and w1: "same_inputs w w1" "quiet w w1" "global_templates w1 = global_templates w"
        "global_template_root w1 = global_template_root w"
        "global_snippets w1 = (global_snippets w)(k := internal_snippets w k)"
      by (auto simp: w1_def copySnippetToGlobal_def bind_def pathExists_def emit_def throw_def
          copyFile_def ensureDir_def snippet_present_def same_inputs_def quiet_def config_event_def)
    from Cons.prems step have rest: "for_each copySnippetToGlobal ks w1 = (r, w')"
      by (simp add: bind_def)
    have tp: "snippet_present w1 = snippet_present w"
      using w1(1) by (auto simp: snippet_present_def same_inputs_def fun_eq_iff)
    have it: "internal_snippets w1 = internal_snippets w"
      using w1(1) by (simp add: same_inputs_def)
    note IH = Cons.IH[OF rest, unfolded tp it]
    have kept: "global_snippets w' k = internal_snippets w k"
    proof (cases "k \<in> set (takeWhile (snippet_present w) ks)")
      case True
      with IH show ?thesis by blast
    next
      case False
      with IH have "global_snippets w' k = global_snippets w1 k" by blast
      with w1(5) show ?thesis by simp
    qed
    have frame: "global_snippets w' q = global_snippets w q"
      if "q \<notin> set (k # takeWhile (snippet_present w) ks)" for q
    proof -
      from that have ne: "q \<noteq> k" and out: "q \<notin> set (takeWhile (snippet_present w) ks)"
        by auto
      from IH out have "global_snippets w' q = global_snippets w1 q" by blast
      with ne w1(5) show ?thesis by simp
    qed
    from IH w1 have "same_inputs w w'" "quiet w w'"
      by (blast intro: same_inputs_trans quiet_trans)+
    with IH w1 kept frame True show ?thesis by simp
  qed
qed

lemma prepared_facts:
  "same_inputs w (prepared w) \<and> quiet w (prepared w) \<and>
   global_templates (prepared w) = global_templates w \<and>
   global_snippets (prepared w) = global_snippets w \<and>
   global_template_root (prepared w) \<and> global_snippet_root (prepared w)"
  by (cases "roles_file w" rule: manifest_events.cases)
     (simp_all add: prepared_def loadRolesManifest_eq ensureDir_eq same_inputs_def quiet_def config_event_def)

lemma applyRoleSetup_load_error:
  "manifest_result (roles_file w) = Inl e \<Longrightarrow>
   applyRoleSetup role w = (Inl e, w\<lparr>trace := trace w @ manifest_events (roles_file w)\<rparr>)"
  by (simp add: applyRoleSetup_def bind_def loadRolesManifest_eq)

lemma applyRoleSetup_not_found:
  "manifest_result (roles_file w) = Inr m \<Longrightarrow> manifest_get m role = None \<Longrightarrow>
   applyRoleSetup role w =
     (Inl (ValidationError ''APPNEURAL role not found'' [(''role'', role)]),
      w\<lparr>trace := trace w @ manifest_events (roles_file w)\<rparr>)"
  by (simp add: applyRoleSetup_def bind_def loadRolesManifest_eq throw_def)

lemma applyRoleSetup_steps:
  assumes "manifest_result (roles_file w) = Inr m" and "manifest_get m role = Some d"
  shows "applyRoleSetup role w =
     (case for_each (copyTemplateToGlobal role) (nullish_or (rd_templates d) []) (prepared w) of
        (Inl e, w4) \<Rightarrow> (Inl e, w4)
      | (Inr u, w4) \<Rightarrow>
          (case for_each copySnippetToGlobal (nullish_or (rd_snippets d) []) w4 of
             (Inl e, w5) \<Rightarrow> (Inl e, w5)
           | (Inr u, w5) \<Rightarrow> persist role d w5))"
  using assms
  by (simp add: applyRoleSetup_def persist_def role_result_def prepared_def bind_def
      loadRolesManifest_eq ensureDir_eq split: prod.splits sum.splits)

lemma persist_eq:
  "persist role d w =
     (case config_result (config_file w) of
        Inl e \<Rightarrow> (Inl e, w\<lparr>trace := trace w @ config_events (config_file w)\<rparr>)
      | Inr c \<Rightarrow>
          (Inr (role_result role d),
           w\<lparr>trace := trace w @ config_events (config_file w) @ [WriteFile CONFIG_FILE],
             ticks := Suc (Suc (ticks w)),
             config_file := ConfigParsed
               (nextConfig role d c (clock w (ticks w)) (clock w (Suc (ticks w))))\<rparr>))"
  by (cases "config_file w")
     (simp_all add: persist_def bind_def readAppneuralConfig_eq now_def writeAppneuralConfig_def
       emit_def ret_def)


lemma dropWhile_Nil_takeWhile: "dropWhile P xs = [] \<Longrightarrow> takeWhile P xs = xs"
  by (metis append_Nil2 takeWhile_dropWhile_id)

lemma applyRoleSetup_outcome:
  fixes role :: string and w :: world
  obtains
    (load_error) e where
      "manifest_result (roles_file w) = Inl e"
      "applyRoleSetup role w = (Inl e, w\<lparr>trace := trace w @ manifest_events (roles_file w)\<rparr>)"
  | (not_found) m where
      "manifest_result (roles_file w) = Inr m" "manifest_get m role = None"
      "applyRoleSetup role w =
         (Inl (ValidationError ''APPNEURAL role not found'' [(''role'', role)]),
          w\<lparr>trace := trace w @ manifest_events (roles_file w)\<rparr>)"
  | (template_missing) m d k rest w' where
      "manifest_result (roles_file w) = Inr m" "manifest_get m role = Some d"
      "dropWhile (template_present w) (nullish_or (rd_templates d) []) = k # rest"
      "applyRoleSetup role w =
         (Inl (ValidationError ''APPNEURAL role template missing'' [(''templateKey'', k)]), w')"
      "same_inputs w w'" "quiet w w'"
      "\<forall>x\<in>set (takeWhile (template_present w) (nullish_or (rd_templates d) [])).
          global_templates w' (role, x) = internal_templates w x"
  | (snippet_missing) m d k rest w' where
      "manifest_result (roles_file w) = Inr m" "manifest_get m role = Some d"
      "dropWhile (template_present w) (nullish_or (rd_templates d) []) = []"
      "dropWhile (snippet_present w) (nullish_or (rd_snippets d) []) = k # rest"
      "applyRoleSetup role w =
         (Inl (ValidationError ''APPNEURAL snippet missing'' [(''snippetKey'', k)]), w')"
      "same_inputs w w'" "quiet w w'"
      "\<forall>x\<in>set (nullish_or (rd_templates d) []).
          global_templates w' (role, x) = internal_templates w x"
      "\<forall>x\<in>set (takeWhile (snippet_present w) (nullish_or (rd_snippets d) [])).
          global_snippets w' x = internal_snippets w x"
  | (config_error) m d e w' where
      "manifest_result (roles_file w) = Inr m" "manifest_get m role = Some d"
      "dropWhile (template_present w) (nullish_or (rd_templates d) []) = []"
      "dropWhile (snippet_present w) (nullish_or (rd_snippets d) []) = []"
      "config_result (config_file w) = Inl e"
      "applyRoleSetup role w = (Inl e, w')" "same_inputs w w'"
  | (success) m d c w' where
      "manifest_result (roles_file w) = Inr m" "manifest_get m role = Some d"
      "dropWhile (template_present w) (nullish_or (rd_templates d) []) = []"
      "dropWhile (snippet_present w) (nullish_or (rd_snippets d) []) = []"
      "config_result (config_file w) = Inr c"
      "applyRoleSetup role w = (Inr (role_result role d), w')"
      "config_file w' = ConfigParsed
         (nextConfig role d c (clock w (ticks w)) (clock w (Suc (ticks w))))"
      "roles_file w' = roles_file w" "internal_templates w' = internal_templates w"
      "internal_snippets w' = internal_snippets w" "clock w' = clock w"
      "ticks w' = Suc (Suc (ticks w))"
      "\<forall>x\<in>set (nullish_or (rd_templates d) []).
          global_templates w' (role, x) = internal_templates w x"
      "\<forall>x\<in>set (nullish_or (rd_snippets d) []).
          global_snippets w' x = internal_snippets w x"
proof (cases "manifest_result (roles_file w)")
  case (Inl e)
  then show ?thesis using load_error applyRoleSetup_load_error by blast
next
  case (Inr m)
  show ?thesis
  proof (cases "manifest_get m role")
    case None
    with Inr show ?thesis using not_found applyRoleSetup_not_found by blast
  next
    case (Some d)
    let ?ts = "nullish_or (rd_templates d) []" and ?ss = "nullish_or (rd_snippets d) []"
    note steps = applyRoleSetup_steps[OF Inr Some]
    note p = prepared_facts[of w]
    have tp: "template_present (prepared w) = template_present w"
      and it: "internal_templates (prepared w) = internal_templates w"
      using p by (auto simp: template_present_def same_inputs_def fun_eq_iff)
    obtain r4 w4 where l4: "for_each (copyTemplateToGlobal role) ?ts (prepared w) = (r4, w4)"
      by (cases "for_each (copyTemplateToGlobal role) ?ts (prepared w)")
    note t = copy_templates_run[OF l4, unfolded tp it]
    from t p have s4: "same_inputs w w4" and q4: "quiet w w4"
      by (blast intro: same_inputs_trans quiet_trans)+
    show ?thesis
    proof (cases "dropWhile (template_present w) ?ts")
      case (Cons k rest)
      with t have "r4 = Inl (ValidationError ''APPNEURAL role template missing'' [(''templateKey'', k)])"
        by simp
      with steps l4 have "applyRoleSetup role w =
         (Inl (ValidationError ''APPNEURAL role template missing'' [(''templateKey'', k)]), w4)"
        by simp
      with Inr Some Cons s4 q4 t show ?thesis using template_missing by blast
    next
      case Nil
      with t have r4: "r4 = Inr ()" by simp
      from Nil have tw: "takeWhile (template_present w) ?ts = ?ts" by (rule dropWhile_Nil_takeWhile)
      have sp: "snippet_present w4 = snippet_present w"
        and isn: "internal_snippets w4 = internal_snippets w"
        using s4 by (auto simp: snippet_present_def same_inputs_def fun_eq_iff)
      obtain r5 w5 where l5: "for_each copySnippetToGlobal ?ss w4 = (r5, w5)"
        by (cases "for_each copySnippetToGlobal ?ss w4")
      note u = copy_snippets_run[OF l5, unfolded sp isn]
      from u s4 q4 have s5: "same_inputs w w5" and q5: "quiet w w5"
        by (blast intro: same_inputs_trans quiet_trans)+
      from t u tw have gt: "\<forall>x\<in>set ?ts. global_templates w5 (role, x) = internal_templates w x"
        by simp
      show ?thesis
      proof (cases "dropWhile (snippet_present w) ?ss")
        case (Cons k rest)
        with u have "r5 = Inl (ValidationError ''APPNEURAL snippet missing'' [(''snippetKey'', k)])"
          by simp
        with steps l4 r4 l5 have "applyRoleSetup role w =
           (Inl (ValidationError ''APPNEURAL snippet missing'' [(''snippetKey'', k)]), w5)"
          by simp
        with Inr Some Nil Cons s5 q5 gt u show ?thesis using snippet_missing by blast
      next
        case sNil: Nil
        with u have r5: "r5 = Inr ()" by simp
        from sNil have sw: "takeWhile (snippet_present w) ?ss = ?ss" by (rule dropWhile_Nil_takeWhile)
        from u sw have gs: "\<forall>x\<in>set ?ss. global_snippets w5 x = internal_snippets w x" by simp
        from steps l4 r4 l5 r5 have fin: "applyRoleSetup role w = persist role d w5" by simp
        from s5 have cf: "config_file w5 = config_file w" and ck: "clock w5 = clock w"
          and tk: "ticks w5 = ticks w" and rf: "roles_file w5 = roles_file w"
          by (simp_all add: same_inputs_def)
        show ?thesis
        proof (cases "config_result (config_file w)")
          case (Inl e)
          with fin cf have "applyRoleSetup role w =
             (Inl e, w5\<lparr>trace := trace w5 @ config_events (config_file w5)\<rparr>)"
            by (simp add: persist_eq)
          moreover have "same_inputs w (w5\<lparr>trace := trace w5 @ config_events (config_file w5)\<rparr>)"
            using s5 by (simp add: same_inputs_def)
          ultimately show ?thesis using config_error Inr Some Nil sNil Inl by blast
        next
          case c: (Inr c)
          define w6 where "w6 = w5\<lparr>trace := trace w5 @ config_events (config_file w5) @ [WriteFile CONFIG_FILE],
             ticks := Suc (Suc (ticks w5)),
             config_file := ConfigParsed
               (nextConfig role d c (clock w5 (ticks w5)) (clock w5 (Suc (ticks w5))))\<rparr>"
          from fin cf c have a: "applyRoleSetup role w = (Inr (role_result role d), w6)"
            by (simp add: persist_eq w6_def)
          have "config_file w6 = ConfigParsed
             (nextConfig role d c (clock w (ticks w)) (clock w (Suc (ticks w))))"
            "roles_file w6 = roles_file w" "internal_templates w6 = internal_templates w"
            "internal_snippets w6 = internal_snippets w" "clock w6 = clock w"
            "ticks w6 = Suc (Suc (ticks w))"
            "\<forall>x\<in>set ?ts. global_templates w6 (role, x) = internal_templates w x"
            "\<forall>x\<in>set ?ss. global_snippets w6 x = internal_snippets w x"
            using s5 gt gs by (simp_all add: w6_def same_inputs_def)
          with a show ?thesis using success[OF Inr Some Nil sNil c] by blast
        qed
      qed
    qed
  qed
qed

lemmas run_defs = applyRoleSetup_def bind_def ret_def throw_def emit_def pathExists_def
  ensureDir_def copyDirectory_def copyFile_def now_def loadRolesManifest_def
  readAppneuralConfig_def writeAppneuralConfig_def copyTemplateToGlobal_def
  copySnippetToGlobal_def manifest_get_def nextConfig_def empty_config_def
  config_healthChecks_def

lemma own_key_get: "map_of m role = Some d \<Longrightarrow> manifest_get m role = Some d"
  by (simp add: manifest_get_def)


text \<open>
  A role name that is neither an own key of the loaded manifest nor a property name of
  \<^verbatim>\<open>Object.prototype\<close> is rejected before anything is written: the world is the one before
  the call, with only the reads of the roles file added to the trace.
\<close>

lemma unknown_role_rejected:
  assumes "fst (loadRolesManifest w) = Inr m" and "map_of m role = None"
    and "role \<notin> set Object_prototype_names"
  shows "applyRoleSetup role w =
     (Inl (ValidationError ''APPNEURAL role not found'' [(''role'', role)]),
      w\<lparr>trace := trace w @ manifest_events (roles_file w)\<rparr>)"
proof -
  from assms(1) have "manifest_result (roles_file w) = Inr m"
    by (simp add: loadRolesManifest_eq)
  moreover from assms(2,3) have "manifest_get m role = None"
    by (simp add: manifest_get_def)
  ultimately show ?thesis by (rule applyRoleSetup_not_found)
qed

lemma dropWhile_Cons_not_all: "dropWhile P xs = k # rest \<Longrightarrow> \<not> (\<forall>x\<in>set xs. P x)"
  by (metis dropWhile_eq_Nil_conv list.distinct(1))

lemma applyRoleSetup_succeeds:
  assumes "fst (loadRolesManifest w) = Inr m" and "map_of m role = Some d"
    and "\<forall>k\<in>set (nullish_or (rd_templates d) []). internal_templates w k \<noteq> None"
    and "\<forall>k\<in>set (nullish_or (rd_snippets d) []). internal_snippets w k \<noteq> None"
    and "config_result (config_file w) = Inr c"
  shows "\<exists>w'. applyRoleSetup role w = (Inr (role_result role d), w') \<and>
           config_file w' = ConfigParsed
             (nextConfig role d c (clock w (ticks w)) (clock w (Suc (ticks w)))) \<and>
           roles_file w' = roles_file w \<and> internal_templates w' = internal_templates w \<and>
           internal_snippets w' = internal_snippets w \<and> clock w' = clock w \<and>
           ticks w' = Suc (Suc (ticks w))"
proof -
  from assms(1) have m: "manifest_result (roles_file w) = Inr m"
    by (simp add: loadRolesManifest_eq)
  from assms(2) have d: "manifest_get m role = Some d" by (rule own_key_get)
  from assms(3) have t: "dropWhile (template_present w) (nullish_or (rd_templates d) []) = []"
    by (simp add: template_present_def)
  from assms(4) have s: "dropWhile (snippet_present w) (nullish_or (rd_snippets d) []) = []"
    by (simp add: snippet_present_def)
  show ?thesis
    by (rule applyRoleSetup_outcome[of w role])
       (use m d t s assms(5) in \<open>auto dest: dropWhile_Cons_not_all\<close>)
qed

lemma applyRoleSetup_Inr:
  assumes "applyRoleSetup role w = (Inr r, w')"
  obtains m d c where "manifest_result (roles_file w) = Inr m" "manifest_get m role = Some d"
    "config_result (config_file w) = Inr c" "r = role_result role d"
    "config_file w' = ConfigParsed
       (nextConfig role d c (clock w (ticks w)) (clock w (Suc (ticks w))))"
    "roles_file w' = roles_file w"
  by (rule applyRoleSetup_outcome[of w role]) (use assms in auto)

lemma applyRoleSetup_Inl:
  assumes "applyRoleSetup role w = (Inl e, w')"
  shows "config_file w' = config_file w \<and> roles_file w' = roles_file w"
  by (rule applyRoleSetup_outcome[of w role]) (use assms in \<open>auto simp: same_inputs_def\<close>)

lemma stocked_manifest: "fst (loadRolesManifest stocked_world) = Inr DEFAULT_ROLES"
  by (simp add: loadRolesManifest_eq stocked_world_def bare_world_def)

lemma stocked_backend_sources:
  "\<forall>k\<in>set (nullish_or (rd_templates backend_dev) []). internal_templates stocked_world k \<noteq> None"
  "\<forall>k\<in>set (nullish_or (rd_snippets backend_dev) []). internal_snippets stocked_world k \<noteq> None"
  by (simp_all add: backend_dev_def stocked_world_def shipped_templates_def shipped_snippets_def)

lemma backend_on_stocked:
  "\<exists>w'. applyRoleSetup ''backend-dev'' stocked_world = (Inr (role_result ''backend-dev'' backend_dev), w') \<and>
     config_file w' = ConfigParsed (nextConfig ''backend-dev'' backend_dev empty_config ''t0'' ''t1'') \<and>
     roles_file w' = RolesAbsent \<and> internal_templates w' = shipped_templates \<and>
     internal_snippets w' = shipped_snippets \<and> ticks w' = 2"
proof -
  have c: "config_result (config_file stocked_world) = Inr empty_config"
    by (simp add: stocked_world_def bare_world_def)
  have k: "map_of DEFAULT_ROLES ''backend-dev'' = Some backend_dev"
    by (simp add: DEFAULT_ROLES_def)
  from applyRoleSetup_succeeds[OF stocked_manifest k stocked_backend_sources c]
  show ?thesis by (auto simp: stocked_world_def bare_world_def)
qed

lemma two_applications:
  assumes "fst (loadRolesManifest w0) = Inr m"
    and "map_of m A = Some dA" and "map_of m B = Some dB"
    and "applyRoleSetup A w0 = (Inr r1, w1)" and "applyRoleSetup B w1 = (Inr r2, w2)"
  shows "\<exists>cfg. config_file w2 = ConfigParsed cfg \<and>
           cfg_settings cfg = Some (persisted_settings w0
              ++ nullish_or (rd_config dA) Map.empty ++ nullish_or (rd_config dB) Map.empty) \<and>
           cfg_shortcuts cfg = Some (nullish_or (rd_shortcuts dB) []) \<and>
           cfg_templates cfg = Some (nullish_or (rd_templates dB) []) \<and>
           cfg_snippets cfg = Some (nullish_or (rd_snippets dB) []) \<and>
           cfg_instructions cfg = Some (nullish_or (rd_instructions dB) [])"
proof -
  from assms(1) have m: "manifest_result (roles_file w0) = Inr m"
    by (simp add: loadRolesManifest_eq)
  from assms(2,3) have d: "manifest_get m A = Some dA" "manifest_get m B = Some dB"
    by (simp_all add: own_key_get)
  from assms(4) obtain m1 d1 c0 where 1:
    "manifest_result (roles_file w0) = Inr m1" "manifest_get m1 A = Some d1"
    "config_result (config_file w0) = Inr c0"
    "config_file w1 = ConfigParsed
       (nextConfig A d1 c0 (clock w0 (ticks w0)) (clock w0 (Suc (ticks w0))))"
    "roles_file w1 = roles_file w0"
    by (rule applyRoleSetup_Inr)
  from 1(1,2) m d have [simp]: "d1 = dA" by simp
  from assms(5) obtain m2 d2 c1 where 2:
    "manifest_result (roles_file w1) = Inr m2" "manifest_get m2 B = Some d2"
    "config_result (config_file w1) = Inr c1"
    "config_file w2 = ConfigParsed
       (nextConfig B d2 c1 (clock w1 (ticks w1)) (clock w1 (Suc (ticks w1))))"
    by (rule applyRoleSetup_Inr)
  from 2(1,2) 1(5) m d have [simp]: "d2 = dB" by simp
  from 1(4) 2(3) have c1: "c1 = nextConfig A dA c0 (clock w0 (ticks w0)) (clock w0 (Suc (ticks w0)))"
    by simp
  have s0: "nullish_or (cfg_settings c0) Map.empty = persisted_settings w0"
    using 1(3) by (cases "config_file w0") (auto simp: persisted_settings_def empty_config_def)
  show ?thesis
    using 2(4) by (simp add: c1 nextConfig_def s0)
qed

lemma after_backend_facts:
  "config_file after_backend = ConfigParsed (nextConfig ''backend-dev'' backend_dev empty_config ''t0'' ''t1'')"
  "roles_file after_backend = RolesAbsent" "internal_templates after_backend = shipped_templates"
  "internal_snippets after_backend = shipped_snippets"
  using backend_on_stocked by (auto simp: after_backend_def)

lemma history_step:
  assumes "applyRoleSetup role w = (r, w')"
  shows "persisted_history w' = persisted_history w @
           (case r of Inl e \<Rightarrow> [] | Inr x \<Rightarrow> [\<lparr>he_role = role, he_appliedAt = clock w (ticks w)\<rparr>])"
proof (cases r)
  case (Inl e)
  with assms have "config_file w' = config_file w" by (simp add: applyRoleSetup_Inl)
  with Inl show ?thesis by (simp add: persisted_history_def)
next
  case (Inr x)
  with assms obtain m d c where
    c: "config_result (config_file w) = Inr c"
    and cf: "config_file w' = ConfigParsed
       (nextConfig role d c (clock w (ticks w)) (clock w (Suc (ticks w))))"
    by (auto elim: applyRoleSetup_Inr)
  from c have "nullish_or (cfg_history c) [] = persisted_history w"
    by (cases "config_file w") (auto simp: persisted_history_def empty_config_def)
  with cf Inr show ?thesis by (simp add: persisted_history_def nextConfig_def)
qed

lemma history_run:
  "apply_all roles w = (outs, w') \<Longrightarrow>
     length outs = length roles \<and>
     map he_role (persisted_history w') =
       map he_role (persisted_history w) @ map fst (filter (\<lambda>p. \<not> isl (snd p)) (zip roles outs))"
proof (induction roles arbitrary: w outs w')
  case Nil
  then show ?case by simp
next
  case (Cons role roles)
  obtain out w1 where s: "applyRoleSetup role w = (out, w1)" by (cases "applyRoleSetup role w")
  obtain outs1 w2 where r: "apply_all roles w1 = (outs1, w2)" by (cases "apply_all roles w1")
  from Cons.prems s r have o: "outs = out # outs1" and w': "w' = w2" by simp_all
  from history_step[OF s] Cons.IH[OF r] show ?case
    by (cases out) (simp_all add: o w')
qed

lemma parse_example: "parseEnv example_env = [(''A'', ''1''), (''B'', ''2'')]"
  by (simp add: example_env_def parseEnv_def LF_def CR_def trim_def is_space_def set_property_def)

lemma entries_example:
  "Object_entries [(''A'', ''1''), (''B'', ''2''), (''JWT_SECRET'', jwt), (''ENCRYPTION_KEY'', key)]
     = [(''A'', ''1''), (''B'', ''2''), (''JWT_SECRET'', jwt), (''ENCRYPTION_KEY'', key)]"
  by (simp add: Object_entries_def is_array_index_def is_digit_def)

lemma length_toHex: "length (toHex bs) = 2 * length bs"
  by (induction bs) (simp_all add: toHex_def)

lemma hex_digit_in: "n < 16 \<Longrightarrow> hex_digit n \<in> set ''0123456789abcdef''"
  unfolding hex_digit_def by (rule nth_mem) simp

lemma set_toHex: "set (toHex bs) \<subseteq> set ''0123456789abcdef''"
proof -
  have "hex_digit (unat b div 16) \<in> set ''0123456789abcdef'' \<and>
        hex_digit (unat b mod 16) \<in> set ''0123456789abcdef''" for b :: "8 word"
  proof -
    have "unat b < 2 ^ LENGTH(8)" by (rule unsigned_less)
    then have "unat b < 256" by simp
    then have "unat b div 16 < 16" "unat b mod 16 < 16" by simp_all
    then show ?thesis by (simp only: hex_digit_in)
  qed
  then show ?thesis unfolding toHex_def by (induction bs) auto
qed

lemma createSecret_eq:
  "createSecret n w =
     (Inr (toHex (map (random_source w) [random_pos w ..< random_pos w + n])),
      w\<lparr>random_pos := random_pos w + n\<rparr>)"
  by (simp add: createSecret_def bind_def randomBytes_def ret_def length_toHex)

lemma generateEnvFile_absent:
  "env_example w = None \<Longrightarrow>
   generateEnvFile w = (Inr False, w\<lparr>trace := trace w @ [PathExists EnvExamplePath]\<rparr>)"
  by (simp add: generateEnvFile_def bind_def pathExists_def emit_def ret_def)

lemma generateEnvFile_present:
  assumes "env_example w = Some content"
  defines "jwt \<equiv> toHex (map (random_source w) [random_pos w ..< random_pos w + 32])"
    and "key \<equiv> toHex (map (random_source w) [random_pos w + 32 ..< random_pos w + 64])"
  shows "generateEnvFile w =
     (Inr True,
      w\<lparr>trace := trace w @ [PathExists EnvExamplePath, ReadFile EnvExamplePath, WriteFile EnvPath],
        random_pos := random_pos w + 64,
        env_file := Some (serializeEnv (os_EOL w)
           (set_property ''ENCRYPTION_KEY'' key
             (set_property ''JWT_SECRET'' jwt (parseEnv content))))\<rparr>)"
  using assms(1)
  by (simp add: generateEnvFile_def bind_def pathExists_def emit_def ret_def readEnvExample_def
      createSecret_eq writeEnv_def jwt_def key_def add.assoc)

lemma isCommandAvailable_eq:
  "isCommandAvailable cmd args w =
     (Inr (execa_ok w cmd (nullish_or args [''--version''])),
      w\<lparr>trace := trace w @ [Exec cmd (nullish_or args [''--version''])]\<rparr>)"
  by (simp add: isCommandAvailable_def succeeds_def execa_def bind_def emit_def)

lemma detectPackageManager_eq:
  "detectPackageManager w =
     (Inr (detected w), w\<lparr>trace := trace w @ detect_events (pnpm_lock w) (yarn_lock w)\<rparr>)"
  by (simp add: detectPackageManager_def detected_def bind_def pathExists_def emit_def ret_def
      isCommandAvailable_eq)

lemma check_endpoint_eq:
  "check_endpoint url w = (Inr (entry_of w url), w\<lparr>trace := trace w @ [Fetch url]\<rparr>)"
  by (simp add: check_endpoint_def entry_of_def bind_def emit_def
      split: fetch_outcome.splits)

lemma entry_of_trace [simp]: "entry_of (w\<lparr>trace := t\<rparr>) = entry_of w"
  by (simp add: entry_of_def fun_eq_iff)

lemma check_all_eq:
  "check_all urls results w =
     (Inr (results @ map (entry_of w) urls), w\<lparr>trace := trace w @ map Fetch urls\<rparr>)"
proof (induction urls arbitrary: results w)
  case Nil
  then show ?case by (simp add: ret_def)
next
  case (Cons url urls)
  show ?case by (simp add: bind_def check_endpoint_eq Cons.IH)
qed

lemma performHealthChecks_eq:
  "performHealthChecks w =
     (case config_result (config_file w) of
        Inl e \<Rightarrow> (Inl e, w\<lparr>trace := trace w @ config_events (config_file w)\<rparr>)
      | Inr c \<Rightarrow>
          (case iterate (select_endpoints (cfg_healthChecks c)) of
             None \<Rightarrow> (Inl TypeError, w\<lparr>trace := trace w @ config_events (config_file w)\<rparr>)
           | Some urls \<Rightarrow>
               (Inr (map (entry_of w) urls),
                w\<lparr>trace := trace w @ config_events (config_file w) @ map Fetch urls\<rparr>)))"
  by (simp add: performHealthChecks_def bind_def readAppneuralConfig_eq throw_def check_all_eq
      split: sum.splits option.splits)

lemma iterate_select:
  assumes "hc = None \<or> (\<exists>xs. hc = Some (JArr xs))"
  shows "iterate (select_endpoints hc) = Some (spec_endpoints hc)"
  using assms by (auto simp: select_endpoints_def spec_endpoints_def)

lemma steady_refl: "steady w w"
  by (simp add: steady_def)

lemma steady_trans: "steady a b \<Longrightarrow> steady b c \<Longrightarrow> steady a c"
  by (simp add: steady_def)

lemma keeps_ret: "keeps (ret x)"
  by (simp add: keeps_def ret_def steady_def)

lemma keeps_throw: "keeps (throw e)"
  by (simp add: keeps_def throw_def steady_def)

lemma keeps_emit: "keeps (emit ev)"
  by (simp add: keeps_def emit_def steady_def)

lemma keeps_bind: "keeps m \<Longrightarrow> (\<And>x. keeps (f x)) \<Longrightarrow> keeps (bind m f)"
  unfolding keeps_def bind_def
  by (auto split: prod.splits sum.splits intro: steady_trans)
     (metis snd_conv steady_trans)+

lemma keeps_fun: "(\<And>w. steady w (snd (m w))) \<Longrightarrow> keeps m"
  by (simp add: keeps_def)

lemma keeps_pathExists: "keeps (pathExists p)"
  by (rule keeps_fun) (simp add: pathExists_def bind_def emit_def steady_def)

lemma keeps_execa: "keeps (execa cmd args)"
  by (rule keeps_fun) (simp add: execa_def bind_def emit_def steady_def)

lemma keeps_succeeds: "keeps m \<Longrightarrow> keeps (succeeds m)"
  unfolding keeps_def succeeds_def
  by (auto split: prod.splits sum.splits) (metis snd_conv)+

lemma keeps_for_each: "(\<And>x. keeps (body x)) \<Longrightarrow> keeps (for_each body xs)"
  by (induction xs) (simp_all add: keeps_ret keeps_bind)

lemma keeps_isCommandAvailable: "keeps (isCommandAvailable cmd args)"
  by (simp add: isCommandAvailable_def keeps_succeeds keeps_execa)

lemma keeps_check_tool: "keeps (check_tool tool)"
  by (cases tool) (simp add: check_tool_def keeps_bind keeps_isCommandAvailable keeps_throw keeps_ret)

lemma keeps_verifyDockerCompose: "keeps verifyDockerCompose"
  by (rule keeps_fun)
     (simp add: verifyDockerCompose_def execa_def bind_def emit_def ret_def steady_def)

lemma keeps_detectPackageManager: "keeps detectPackageManager"
  by (rule keeps_fun) (simp add: detectPackageManager_eq steady_def)

lemma keeps_installDependencies: "keeps (installDependencies manager)"
  by (simp add: installDependencies_def keeps_execa)

lemma keeps_generateEnvFile: "keeps generateEnvFile"
proof (rule keeps_fun)
  fix w show "steady w (snd (generateEnvFile w))"
    by (cases "env_example w")
       (simp_all add: generateEnvFile_absent generateEnvFile_present steady_def)
qed

lemma keeps_startDockerServices: "keeps (startDockerServices c)"
  by (simp add: startDockerServices_def keeps_bind keeps_execa keeps_ret)

lemma keeps_runScriptIfPresent: "keeps (runScriptIfPresent manager script)"
  by (simp add: runScriptIfPresent_def keeps_succeeds keeps_execa)

lemma keeps_performHealthChecks: "keeps performHealthChecks"
  by (rule keeps_fun)
     (simp add: performHealthChecks_eq steady_def split: sum.splits option.splits)


lemma keeps_runLocalEnvironmentSetup: "keeps runLocalEnvironmentSetup"
  unfolding runLocalEnvironmentSetup_def
  by (intro keeps_bind keeps_for_each keeps_check_tool keeps_verifyDockerCompose
      keeps_detectPackageManager keeps_installDependencies keeps_generateEnvFile
      keeps_startDockerServices keeps_runScriptIfPresent keeps_performHealthChecks keeps_ret)






section \<open>Role setup: the claims\<close>




text \<open>
  Claim C4. For every role name that is not a key of the loaded manifest,
  \<^verbatim>\<open>applyRoleSetup\<close> fails with a validation error and writes nothing.
  The code does not do so for the name \<^verbatim>\<open>constructor\<close>: it is no key of the default
  manifest, yet \<^verbatim>\<open>manifest[role]\<close> finds the inherited member, the check
  \<^verbatim>\<open>if (!definition)\<close> passes, both global directories are created and the config file is
  written with the role \<^verbatim>\<open>constructor\<close> and a history entry. For a name that is neither
  an own key nor a property name of \<^verbatim>\<open>Object.prototype\<close> the call is rejected before
  anything is written (lemma \<open>unknown_role_rejected\<close>).
\<close>

theorem inherited_name_is_applied:
  "map_of DEFAULT_ROLES ''constructor'' = None \<and>
   applyRoleSetup ''constructor'' bare_world =
     (Inr \<lparr>rs_role = ''constructor'', rs_shortcuts = [], rs_templates = [], rs_snippets = [],
           rs_instructions = []\<rparr>,
      bare_world\<lparr>
        config_file := ConfigParsed
          \<lparr>cfg_role = Some ''constructor'', cfg_shortcuts = Some [], cfg_instructions = Some [],
           cfg_templates = Some [], cfg_snippets = Some [], cfg_settings = Some Map.empty,
           cfg_healthChecks = None,
           cfg_history = Some [\<lparr>he_role = ''constructor'', he_appliedAt = ''t0''\<rparr>],
           cfg_updatedAt = Some ''t1''\<rparr>,
        global_template_root := True, global_snippet_root := True,
        ticks := 2,
        trace := [PathExists ROLES_FILE, EnsureDir GLOBAL_TEMPLATE_ROOT,
                  EnsureDir GLOBAL_SNIPPET_ROOT, PathExists CONFIG_FILE, WriteFile CONFIG_FILE]\<rparr>)"
  by (simp add: run_defs bare_world_def DEFAULT_ROLES_def Object_prototype_names_def
      inherited_member_def)

text \<open>
  Claim C5. When a role of the manifest is applied and a listed template directory or
  snippet file is missing at its source, the call fails with a validation error; the
  config file is neither probed, read nor written and stays as it was; the copies made
  before the failing entry stay in the global directories: the templates before the first
  missing one, and, when no template is missing, all templates and the snippets before the
  first missing one.
\<close>

theorem missing_source_aborts:
  assumes "fst (loadRolesManifest w) = Inr m" and "map_of m role = Some d"
    and "(\<exists>k\<in>set (nullish_or (rd_templates d) []). internal_templates w k = None) \<or>
         (\<exists>k\<in>set (nullish_or (rd_snippets d) []). internal_snippets w k = None)"
    and "applyRoleSetup role w = (r, w')"
  shows "(\<exists>msg ctx. r = Inl (ValidationError msg ctx)) \<and>
         config_file w' = config_file w \<and>
         (\<exists>evs. trace w' = trace w @ evs \<and> PathExists CONFIG_FILE \<notin> set evs \<and>
                ReadFile CONFIG_FILE \<notin> set evs \<and> WriteFile CONFIG_FILE \<notin> set evs) \<and>
         (\<forall>k\<in>set (takeWhile (template_present w) (nullish_or (rd_templates d) [])).
             global_templates w' (role, k) = internal_templates w k) \<and>
         ((\<forall>k\<in>set (nullish_or (rd_templates d) []). template_present w k) \<longrightarrow>
            (\<forall>k\<in>set (takeWhile (snippet_present w) (nullish_or (rd_snippets d) [])).
                global_snippets w' k = internal_snippets w k))"
proof -
  let ?ts = "nullish_or (rd_templates d) []" and ?ss = "nullish_or (rd_snippets d) []"
  from assms(1) have m: "manifest_result (roles_file w) = Inr m"
    by (simp add: loadRolesManifest_eq)
  from assms(2) have d: "manifest_get m role = Some d" by (rule own_key_get)
  from assms(3) have miss: "dropWhile (template_present w) ?ts \<noteq> [] \<or>
      dropWhile (snippet_present w) ?ss \<noteq> []"
    by (auto simp: dropWhile_eq_Nil_conv template_present_def snippet_present_def)
  have q: "quiet w w' \<Longrightarrow> \<exists>evs. trace w' = trace w @ evs \<and> PathExists CONFIG_FILE \<notin> set evs \<and>
                ReadFile CONFIG_FILE \<notin> set evs \<and> WriteFile CONFIG_FILE \<notin> set evs"
    unfolding quiet_def config_event_def by blast
  show ?thesis
  proof (rule applyRoleSetup_outcome[of w role])
    fix e assume "manifest_result (roles_file w) = Inl e"
    with m show ?thesis by simp
  next
    fix m' assume "manifest_result (roles_file w) = Inr m'" "manifest_get m' role = None"
    with m d show ?thesis by simp
  next
    fix m' d' k rest v
    assume a: "manifest_result (roles_file w) = Inr m'" "manifest_get m' role = Some d'"
      "dropWhile (template_present w) (nullish_or (rd_templates d') []) = k # rest"
      "applyRoleSetup role w =
         (Inl (ValidationError ''APPNEURAL role template missing'' [(''templateKey'', k)]), v)"
      "same_inputs w v" "quiet w v"
      "\<forall>x\<in>set (takeWhile (template_present w) (nullish_or (rd_templates d') [])).
          global_templates v (role, x) = internal_templates w x"
    from a(1,2) m d have [simp]: "d' = d" by simp
    from a(4) assms(4) have [simp]: "v = w'"
      and r: "r = Inl (ValidationError ''APPNEURAL role template missing'' [(''templateKey'', k)])"
      by simp_all
    from a(3) have na: "\<not> (\<forall>k\<in>set ?ts. template_present w k)"
      using dropWhile_Cons_not_all by fastforce
    from a(5) have cf: "config_file w' = config_file w" by (simp add: same_inputs_def)
    from q a(6) have tr: "\<exists>evs. trace w' = trace w @ evs \<and> PathExists CONFIG_FILE \<notin> set evs \<and>
                ReadFile CONFIG_FILE \<notin> set evs \<and> WriteFile CONFIG_FILE \<notin> set evs" by simp
    from a(7) have g: "\<forall>x\<in>set (takeWhile (template_present w) ?ts).
          global_templates w' (role, x) = internal_templates w x" by simp
    from r cf tr g na show ?thesis by blast
  next
    fix m' d' k rest v
    assume a: "manifest_result (roles_file w) = Inr m'" "manifest_get m' role = Some d'"
      "dropWhile (template_present w) (nullish_or (rd_templates d') []) = []"
      "dropWhile (snippet_present w) (nullish_or (rd_snippets d') []) = k # rest"
      "applyRoleSetup role w =
         (Inl (ValidationError ''APPNEURAL snippet missing'' [(''snippetKey'', k)]), v)"
      "same_inputs w v" "quiet w v"
      "\<forall>x\<in>set (nullish_or (rd_templates d') []).
          global_templates v (role, x) = internal_templates w x"
      "\<forall>x\<in>set (takeWhile (snippet_present w) (nullish_or (rd_snippets d') [])).
          global_snippets v x = internal_snippets w x"
    from a(1,2) m d have [simp]: "d' = d" by simp
    from a(5) assms(4) have [simp]: "v = w'"
      and r: "r = Inl (ValidationError ''APPNEURAL snippet missing'' [(''snippetKey'', k)])"
      by simp_all
    from a(6) have cf: "config_file w' = config_file w" by (simp add: same_inputs_def)
    from q a(7) have tr: "\<exists>evs. trace w' = trace w @ evs \<and> PathExists CONFIG_FILE \<notin> set evs \<and>
                ReadFile CONFIG_FILE \<notin> set evs \<and> WriteFile CONFIG_FILE \<notin> set evs" by simp
    from a(8) have g: "\<forall>x\<in>set (takeWhile (template_present w) ?ts).
          global_templates w' (role, x) = internal_templates w x"
      by (auto dest: set_takeWhileD)
    from a(9) have h: "\<forall>x\<in>set (takeWhile (snippet_present w) ?ss).
          global_snippets w' x = internal_snippets w x" by simp
    from r cf tr g h show ?thesis by blast
  next
    fix m' d' e v
    assume a: "manifest_result (roles_file w) = Inr m'" "manifest_get m' role = Some d'"
      "dropWhile (template_present w) (nullish_or (rd_templates d') []) = []"
      "dropWhile (snippet_present w) (nullish_or (rd_snippets d') []) = []"
    from a(1,2) m d have "d' = d" by simp
    with a(3,4) miss show ?thesis by simp
  next
    fix m' d' c v
    assume a: "manifest_result (roles_file w) = Inr m'" "manifest_get m' role = Some d'"
      "dropWhile (template_present w) (nullish_or (rd_templates d') []) = []"
      "dropWhile (snippet_present w) (nullish_or (rd_snippets d') []) = []"
    from a(1,2) m d have "d' = d" by simp
    with a(3,4) miss show ?thesis by simp
  qed
qed

theorem missing_source_aborts_witness:
  "(\<exists>msg ctx. fst (applyRoleSetup ''backend-dev'' partial_world) = Inl (ValidationError msg ctx)) \<and>
   config_file (snd (applyRoleSetup ''backend-dev'' partial_world)) = ConfigAbsent \<and>
   global_templates (snd (applyRoleSetup ''backend-dev'' partial_world))
     (''backend-dev'', ''nest-service/basic'') = Some ''nest''"
proof -
  have 1: "fst (loadRolesManifest partial_world) = Inr DEFAULT_ROLES"
    by (simp add: loadRolesManifest_eq partial_world_def bare_world_def)
  have 2: "map_of DEFAULT_ROLES ''backend-dev'' = Some backend_dev"
    by (simp add: DEFAULT_ROLES_def)
  have 3: "(\<exists>k\<in>set (nullish_or (rd_templates backend_dev) []). internal_templates partial_world k = None) \<or>
         (\<exists>k\<in>set (nullish_or (rd_snippets backend_dev) []). internal_snippets partial_world k = None)"
    by (simp add: backend_dev_def partial_world_def)
  have 4: "applyRoleSetup ''backend-dev'' partial_world =
     (fst (applyRoleSetup ''backend-dev'' partial_world), snd (applyRoleSetup ''backend-dev'' partial_world))"
    by simp
  have 5: "takeWhile (template_present partial_world) (nullish_or (rd_templates backend_dev) [])
      = [''nest-service/basic'']"
    by (simp add: backend_dev_def partial_world_def template_present_def)
  from missing_source_aborts[OF 1 2 3 4] show ?thesis
    by (simp add: 5) (simp add: partial_world_def bare_world_def)
qed

text \<open>
  Claim C10. After a successful \<^verbatim>\<open>applyRoleSetup\<close> of a role whose config holds a list
  under the key \<^verbatim>\<open>healthChecks\<close>, the persisted config holds that list twice: as its
  field \<^verbatim>\<open>healthChecks\<close> and under \<^verbatim>\<open>settings.healthChecks\<close>; and every key of the
  role's config is a key of the settings, with the role's value.
\<close>

theorem health_checks_stored_twice:
  assumes "applyRoleSetup role w = (Inr r, w')"
    and "fst (loadRolesManifest w) = Inr m" and "map_of m role = Some d"
    and "rd_config d = Some c" and "c ''healthChecks'' = Some (JArr urls)"
  shows "\<exists>cfg s. config_file w' = ConfigParsed cfg \<and>
           cfg_healthChecks cfg = Some (JArr urls) \<and>
           cfg_settings cfg = Some s \<and> s ''healthChecks'' = Some (JArr urls) \<and>
           (\<forall>k v. c k = Some v \<longrightarrow> s k = Some v)"
proof -
  from assms(2) have m: "manifest_result (roles_file w) = Inr m"
    by (simp add: loadRolesManifest_eq)
  from assms(3) have d: "manifest_get m role = Some d" by (rule own_key_get)
  from assms(1) obtain m' d' c0 where
    "manifest_result (roles_file w) = Inr m'" "manifest_get m' role = Some d'"
    and cf: "config_file w' = ConfigParsed
       (nextConfig role d' c0 (clock w (ticks w)) (clock w (Suc (ticks w))))"
    by (rule applyRoleSetup_Inr)
  with m d have [simp]: "d' = d" by simp
  let ?cfg = "nextConfig role d c0 (clock w (ticks w)) (clock w (Suc (ticks w)))"
  let ?s = "nullish_or (cfg_settings c0) Map.empty ++ c"
  have "cfg_healthChecks ?cfg = Some (JArr urls)"
    using assms(4,5) by (simp add: nextConfig_def config_healthChecks_def)
  moreover have "cfg_settings ?cfg = Some ?s"
    using assms(4) by (simp add: nextConfig_def)
  moreover have "?s ''healthChecks'' = Some (JArr urls)"
    using assms(5) by simp
  moreover have "\<forall>k v. c k = Some v \<longrightarrow> ?s k = Some v"
    by simp
  ultimately show ?thesis using cf by auto
qed

theorem health_checks_stored_twice_witness:
  "\<exists>cfg s. config_file (snd (applyRoleSetup ''backend-dev'' stocked_world)) = ConfigParsed cfg \<and>
      cfg_healthChecks cfg = Some (JArr (map JStr DEFAULT_HEALTH_ENDPOINTS)) \<and>
      cfg_settings cfg = Some s \<and>
      s ''healthChecks'' = Some (JArr (map JStr DEFAULT_HEALTH_ENDPOINTS)) \<and>
      s ''stack'' = Some (JStr ''nest'')"
proof -
  from backend_on_stocked obtain w' where
    a: "applyRoleSetup ''backend-dev'' stocked_world = (Inr (role_result ''backend-dev'' backend_dev), w')"
    by blast
  have k: "map_of DEFAULT_ROLES ''backend-dev'' = Some backend_dev"
    by (simp add: DEFAULT_ROLES_def)
  have c: "rd_config backend_dev = Some
       [''stack'' \<mapsto> JStr ''nest'',
        ''healthChecks'' \<mapsto> JArr (map JStr DEFAULT_HEALTH_ENDPOINTS)]"
    by (simp add: backend_dev_def)
  have h: "[''stack'' \<mapsto> JStr ''nest'',
        ''healthChecks'' \<mapsto> JArr (map JStr DEFAULT_HEALTH_ENDPOINTS)] ''healthChecks''
      = Some (JArr (map JStr DEFAULT_HEALTH_ENDPOINTS))"
    by simp
  from health_checks_stored_twice[OF a stocked_manifest k c h] a
  show ?thesis by fastforce
qed

text \<open>
  Claim C1. Applying role A and then role B, both keys of the loaded manifest, leaves the
  persisted settings equal to the shallow union of A's config and B's config, B's keys
  winning, and leaves shortcuts, templates, snippets and instructions equal to B's.

  As stated the claim fails for the settings: they are cumulative, so whatever was
  persisted before A is still there after B. After \<^verbatim>\<open>backend-dev\<close>, then
  \<^verbatim>\<open>frontend-dev\<close>, then \<^verbatim>\<open>mobile-dev\<close>, the settings still hold the key
  \<^verbatim>\<open>healthChecks\<close> of \<^verbatim>\<open>backend-dev\<close>, which neither of the last two roles has.
\<close>

theorem settings_union_counterexample:
  "\<not> isl (fst (applyRoleSetup ''frontend-dev'' after_backend)) \<and>
   \<not> isl (fst (applyRoleSetup ''mobile-dev'' (snd (applyRoleSetup ''frontend-dev'' after_backend)))) \<and>
   persisted_settings
      (snd (applyRoleSetup ''mobile-dev'' (snd (applyRoleSetup ''frontend-dev'' after_backend))))
     \<noteq> nullish_or (rd_config frontend_dev) Map.empty ++ nullish_or (rd_config mobile_dev) Map.empty"
proof -
  have kA: "map_of DEFAULT_ROLES ''frontend-dev'' = Some frontend_dev"
    and kB: "map_of DEFAULT_ROLES ''mobile-dev'' = Some mobile_dev"
    by (simp_all add: DEFAULT_ROLES_def)
  have m0: "fst (loadRolesManifest after_backend) = Inr DEFAULT_ROLES"
    by (simp add: loadRolesManifest_eq after_backend_facts)
  have c0: "config_result (config_file after_backend) =
      Inr (nextConfig ''backend-dev'' backend_dev empty_config ''t0'' ''t1'')"
    by (simp add: after_backend_facts)
  have sA: "\<forall>k\<in>set (nullish_or (rd_templates frontend_dev) []). internal_templates after_backend k \<noteq> None"
    "\<forall>k\<in>set (nullish_or (rd_snippets frontend_dev) []). internal_snippets after_backend k \<noteq> None"
    by (simp_all add: frontend_dev_def after_backend_facts shipped_templates_def shipped_snippets_def)
  from applyRoleSetup_succeeds[OF m0 kA sA c0] obtain w1 where
    a1: "applyRoleSetup ''frontend-dev'' after_backend = (Inr (role_result ''frontend-dev'' frontend_dev), w1)"
    and w1: "roles_file w1 = roles_file after_backend" "internal_templates w1 = internal_templates after_backend"
      "internal_snippets w1 = internal_snippets after_backend"
    and cf1: "config_file w1 = ConfigParsed (nextConfig ''frontend-dev'' frontend_dev
        (nextConfig ''backend-dev'' backend_dev empty_config ''t0'' ''t1'')
        (clock after_backend (ticks after_backend)) (clock after_backend (Suc (ticks after_backend))))"
    by blast
  from cf1 obtain c1 where c1: "config_result (config_file w1) = Inr c1"
    by simp
  have m1: "fst (loadRolesManifest w1) = Inr DEFAULT_ROLES"
    using w1(1) by (simp add: loadRolesManifest_eq after_backend_facts)
  have sB: "\<forall>k\<in>set (nullish_or (rd_templates mobile_dev) []). internal_templates w1 k \<noteq> None"
    "\<forall>k\<in>set (nullish_or (rd_snippets mobile_dev) []). internal_snippets w1 k \<noteq> None"
    using w1(2,3)
    by (simp_all add: mobile_dev_def after_backend_facts shipped_templates_def shipped_snippets_def)
  from applyRoleSetup_succeeds[OF m1 kB sB c1] obtain w2 where
    a2: "applyRoleSetup ''mobile-dev'' w1 = (Inr (role_result ''mobile-dev'' mobile_dev), w2)"
    by blast
  from two_applications[OF m0 kA kB a1 a2] obtain cfg where
    g: "config_file w2 = ConfigParsed cfg"
      "cfg_settings cfg = Some (persisted_settings after_backend
         ++ nullish_or (rd_config frontend_dev) Map.empty ++ nullish_or (rd_config mobile_dev) Map.empty)"
    by blast
  have "persisted_settings after_backend ''healthChecks'' = Some (JArr (map JStr DEFAULT_HEALTH_ENDPOINTS))"
    by (simp add: persisted_settings_def after_backend_facts nextConfig_def backend_dev_def empty_config_def)
  then have l: "persisted_settings w2 ''healthChecks'' = Some (JArr (map JStr DEFAULT_HEALTH_ENDPOINTS))"
    using g by (simp add: persisted_settings_def frontend_dev_def mobile_dev_def map_add_def)
  have r: "(nullish_or (rd_config frontend_dev) Map.empty ++ nullish_or (rd_config mobile_dev) Map.empty)
      ''healthChecks'' = None"
    by (simp add: frontend_dev_def mobile_dev_def map_add_def)
  from l r have "persisted_settings w2 \<noteq>
      nullish_or (rd_config frontend_dev) Map.empty ++ nullish_or (rd_config mobile_dev) Map.empty"
    by (metis option.distinct(1))
  with a1 a2 show ?thesis by simp
qed

text \<open>
  Claim C1, amended. Applying role A and then role B leaves the persisted settings equal
  to the settings persisted before, overlaid with A's config and then with B's config
  (with no settings persisted before, the shallow union of A's and B's config, B's keys
  winning), and leaves shortcuts, templates, snippets and instructions equal to B's
  values, an absent list counting as empty.
\<close>

theorem settings_accumulate:
  assumes "fst (loadRolesManifest w0) = Inr m"
    and "map_of m A = Some dA" and "map_of m B = Some dB"
    and "applyRoleSetup A w0 = (Inr r1, w1)" and "applyRoleSetup B w1 = (Inr r2, w2)"
  shows "\<exists>cfg. config_file w2 = ConfigParsed cfg \<and>
           cfg_settings cfg = Some (persisted_settings w0
              ++ nullish_or (rd_config dA) Map.empty ++ nullish_or (rd_config dB) Map.empty) \<and>
           cfg_shortcuts cfg = Some (nullish_or (rd_shortcuts dB) []) \<and>
           cfg_templates cfg = Some (nullish_or (rd_templates dB) []) \<and>
           cfg_snippets cfg = Some (nullish_or (rd_snippets dB) []) \<and>
           cfg_instructions cfg = Some (nullish_or (rd_instructions dB) [])"
  using assms by (rule two_applications)

theorem settings_accumulate_witness:
  "\<exists>cfg. config_file (snd (applyRoleSetup ''mobile-dev''
             (snd (applyRoleSetup ''frontend-dev'' stocked_world)))) = ConfigParsed cfg \<and>
        cfg_settings cfg = Some [''stack'' \<mapsto> JStr ''react-native''] \<and>
        cfg_templates cfg = Some [''react-page/mobile'']"
proof -
  have kA: "map_of DEFAULT_ROLES ''frontend-dev'' = Some frontend_dev"
    and kB: "map_of DEFAULT_ROLES ''mobile-dev'' = Some mobile_dev"
    by (simp_all add: DEFAULT_ROLES_def)
  have c: "config_result (config_file stocked_world) = Inr empty_config"
    by (simp add: stocked_world_def bare_world_def)
  have sA: "\<forall>k\<in>set (nullish_or (rd_templates frontend_dev) []). internal_templates stocked_world k \<noteq> None"
    "\<forall>k\<in>set (nullish_or (rd_snippets frontend_dev) []). internal_snippets stocked_world k \<noteq> None"
    by (simp_all add: frontend_dev_def stocked_world_def shipped_templates_def shipped_snippets_def)
  from applyRoleSetup_succeeds[OF stocked_manifest kA sA c] obtain w1 where
    a1: "applyRoleSetup ''frontend-dev'' stocked_world = (Inr (role_result ''frontend-dev'' frontend_dev), w1)"
    and w1: "config_file w1 = ConfigParsed (nextConfig ''frontend-dev'' frontend_dev empty_config
        (clock stocked_world (ticks stocked_world)) (clock stocked_world (Suc (ticks stocked_world))))"
      "roles_file w1 = roles_file stocked_world" "internal_templates w1 = internal_templates stocked_world"
      "internal_snippets w1 = internal_snippets stocked_world"
    by blast
  have m1: "fst (loadRolesManifest w1) = Inr DEFAULT_ROLES"
    using w1(2) by (simp add: loadRolesManifest_eq stocked_world_def bare_world_def)
  have sB: "\<forall>k\<in>set (nullish_or (rd_templates mobile_dev) []). internal_templates w1 k \<noteq> None"
    "\<forall>k\<in>set (nullish_or (rd_snippets mobile_dev) []). internal_snippets w1 k \<noteq> None"
    using w1(3,4)
    by (simp_all add: mobile_dev_def stocked_world_def shipped_templates_def shipped_snippets_def)
  have c1: "config_result (config_file w1) = Inr (nextConfig ''frontend-dev'' frontend_dev empty_config
        (clock stocked_world (ticks stocked_world)) (clock stocked_world (Suc (ticks stocked_world))))"
    using w1(1) by simp
  from applyRoleSetup_succeeds[OF m1 kB sB c1] obtain w2 where
    a2: "applyRoleSetup ''mobile-dev'' w1 = (Inr (role_result ''mobile-dev'' mobile_dev), w2)"
    by blast
  have p: "persisted_settings stocked_world = Map.empty"
    by (simp add: persisted_settings_def stocked_world_def bare_world_def)
  have u: "Map.empty ++ nullish_or (rd_config frontend_dev) Map.empty
             ++ nullish_or (rd_config mobile_dev) Map.empty = [''stack'' \<mapsto> JStr ''react-native'']"
    by (simp add: frontend_dev_def mobile_dev_def)
  from settings_accumulate[OF stocked_manifest kA kB a1 a2] obtain cfg where
    g: "config_file w2 = ConfigParsed cfg"
      "cfg_settings cfg = Some (persisted_settings stocked_world
         ++ nullish_or (rd_config frontend_dev) Map.empty ++ nullish_or (rd_config mobile_dev) Map.empty)"
      "cfg_templates cfg = Some (nullish_or (rd_templates mobile_dev) [])"
    by blast
  from g(2) have "cfg_settings cfg = Some [''stack'' \<mapsto> JStr ''react-native'']"
    by (simp only: p u)
  moreover from g(3) have "cfg_templates cfg = Some [''react-page/mobile'']"
    by (simp add: mobile_dev_def)
  ultimately show ?thesis using g(1) a1 a2 by simp
qed

section \<open>Local environment setup: the claims\<close>

text \<open>
  Claim C6. Given a \<^verbatim>\<open>.env.example\<close> with the content \<^verbatim>\<open>A=1\nB=2\n#comment\n\n\<close>, env
  generation returns true and writes a \<^verbatim>\<open>.env\<close> of four lines joined by the platform's
  line separator: \<^verbatim>\<open>A=1\<close>, \<^verbatim>\<open>B=2\<close>, \<^verbatim>\<open>JWT_SECRET=\<close> and \<^verbatim>\<open>ENCRYPTION_KEY=\<close> each
  followed by 64 hexadecimal characters; no comment line and no blank line is in it. When
  \<^verbatim>\<open>.env.example\<close> is absent, generation returns false, \<^verbatim>\<open>.env\<close> is left as it was and
  the only event is the existence test.
\<close>

theorem env_generation:
  "(env_example w = Some example_env \<longrightarrow>
      (\<exists>jwt key.
         fst (generateEnvFile w) = Inr True \<and>
         env_file (snd (generateEnvFile w)) =
           Some (''A=1'' @ os_EOL w @ ''B=2'' @ os_EOL w @ ''JWT_SECRET='' @ jwt @ os_EOL w
                 @ ''ENCRYPTION_KEY='' @ key) \<and>
         length jwt = 64 \<and> set jwt \<subseteq> set ''0123456789abcdef'' \<and>
         length key = 64 \<and> set key \<subseteq> set ''0123456789abcdef'')) \<and>
   (env_example w = None \<longrightarrow>
      fst (generateEnvFile w) = Inr False \<and>
      env_file (snd (generateEnvFile w)) = env_file w \<and>
      trace (snd (generateEnvFile w)) = trace w @ [PathExists EnvExamplePath])"
proof (intro conjI impI)
  assume a: "env_example w = Some example_env"
  let ?jwt = "toHex (map (random_source w) [random_pos w ..< random_pos w + 32])"
  let ?key = "toHex (map (random_source w) [random_pos w + 32 ..< random_pos w + 64])"
  note p = parse_example
  have "fst (generateEnvFile w) = Inr True"
    by (simp add: generateEnvFile_present[OF a])
  moreover have "env_file (snd (generateEnvFile w)) =
           Some (''A=1'' @ os_EOL w @ ''B=2'' @ os_EOL w @ ''JWT_SECRET='' @ ?jwt @ os_EOL w
                 @ ''ENCRYPTION_KEY='' @ ?key)"
    by (simp add: generateEnvFile_present[OF a] p set_property_def serializeEnv_def entries_example)
  moreover have "length ?jwt = 64" "length ?key = 64" by (simp_all add: length_toHex)
  moreover have "set ?jwt \<subseteq> set ''0123456789abcdef''" "set ?key \<subseteq> set ''0123456789abcdef''"
    by (rule set_toHex)+
  ultimately show "\<exists>jwt key.
         fst (generateEnvFile w) = Inr True \<and>
         env_file (snd (generateEnvFile w)) =
           Some (''A=1'' @ os_EOL w @ ''B=2'' @ os_EOL w @ ''JWT_SECRET='' @ jwt @ os_EOL w
                 @ ''ENCRYPTION_KEY='' @ key) \<and>
         length jwt = 64 \<and> set jwt \<subseteq> set ''0123456789abcdef'' \<and>
         length key = 64 \<and> set key \<subseteq> set ''0123456789abcdef''"
    by blast
next
  assume "env_example w = None"
  then show "fst (generateEnvFile w) = Inr False"
    "env_file (snd (generateEnvFile w)) = env_file w"
    "trace (snd (generateEnvFile w)) = trace w @ [PathExists EnvExamplePath]"
    by (simp_all add: generateEnvFile_absent)
qed

theorem env_generation_witness:
  "fst (generateEnvFile env_world) = Inr True \<and>
   (\<exists>jwt key. env_file (snd (generateEnvFile env_world)) =
        Some (''A=1'' @ [LF] @ ''B=2'' @ [LF] @ ''JWT_SECRET='' @ jwt @ [LF]
              @ ''ENCRYPTION_KEY='' @ key) \<and> length jwt = 64 \<and> length key = 64) \<and>
   fst (generateEnvFile bare_world) = Inr False \<and>
   env_file (snd (generateEnvFile bare_world)) = None"
proof -
  have a: "env_example env_world = Some example_env" and e: "os_EOL env_world = [LF]"
    by (simp_all add: env_world_def bare_world_def)
  have b: "env_example bare_world = None" "env_file bare_world = None"
    by (simp_all add: bare_world_def)
  from env_generation[of env_world] a e env_generation[of bare_world] b
  show ?thesis by auto
qed

text \<open>
  Claim C7. Package-manager detection: with \<^verbatim>\<open>pnpm-lock.yaml\<close> present the result is pnpm
  when the pnpm binary is available and npm when it is not; with \<^verbatim>\<open>pnpm-lock.yaml\<close> absent
  and \<^verbatim>\<open>yarn.lock\<close> present it is yarn when the yarn binary is available and npm when it is
  not; with neither lockfile it is npm.
\<close>

theorem package_manager_detection:
  "(pnpm_lock w \<and> execa_ok w ''pnpm'' [''--version''] \<longrightarrow>
      fst (detectPackageManager w) = Inr Pnpm) \<and>
   (pnpm_lock w \<and> \<not> execa_ok w ''pnpm'' [''--version''] \<longrightarrow>
      fst (detectPackageManager w) = Inr Npm) \<and>
   (\<not> pnpm_lock w \<and> yarn_lock w \<and> execa_ok w ''yarn'' [''--version''] \<longrightarrow>
      fst (detectPackageManager w) = Inr Yarn) \<and>
   (\<not> pnpm_lock w \<and> yarn_lock w \<and> \<not> execa_ok w ''yarn'' [''--version''] \<longrightarrow>
      fst (detectPackageManager w) = Inr Npm) \<and>
   (\<not> pnpm_lock w \<and> \<not> yarn_lock w \<longrightarrow> fst (detectPackageManager w) = Inr Npm)"
  by (simp add: detectPackageManager_eq detected_def)

theorem package_manager_detection_witness:
  "fst (detectPackageManager pnpm_world) = Inr Pnpm \<and>
   fst (detectPackageManager (pnpm_world\<lparr>execa_ok := (\<lambda>cmd args. cmd = ''yarn'')\<rparr>)) = Inr Npm \<and>
   fst (detectPackageManager yarn_world) = Inr Yarn \<and>
   fst (detectPackageManager (yarn_world\<lparr>execa_ok := (\<lambda>cmd args. False)\<rparr>)) = Inr Npm \<and>
   fst (detectPackageManager bare_world) = Inr Npm"
  using package_manager_detection[of pnpm_world]
    package_manager_detection[of "pnpm_world\<lparr>execa_ok := (\<lambda>cmd args. cmd = ''yarn'')\<rparr>"]
    package_manager_detection[of yarn_world]
    package_manager_detection[of "yarn_world\<lparr>execa_ok := (\<lambda>cmd args. False)\<rparr>"]
    package_manager_detection[of bare_world]
  by (simp add: pnpm_world_def yarn_world_def bare_world_def)

text \<open>
  Claim C8. Health-check aggregation, for a config file that is absent or parses and whose
  \<^verbatim>\<open>healthChecks\<close> is absent or a list: the endpoints are the stored list when it is not
  empty, else the three default endpoints; the results list one entry for each endpoint,
  in the order of the endpoints; an entry whose request is answered within 4000
  milliseconds carries the status and \<^verbatim>\<open>healthy\<close> equal to \<^verbatim>\<open>response.ok\<close>; an entry
  whose request fails or is aborted at 4000 milliseconds has \<^verbatim>\<open>healthy\<close> false and no
  status; for two endpoints of which the first answers 200 in time and the second times
  out the result is the two entries of the claim, in that order.
\<close>

theorem health_check_aggregation:
  assumes "config_result (config_file w) = Inr cfg"
    and "cfg_healthChecks cfg = None \<or> (\<exists>xs. cfg_healthChecks cfg = Some (JArr xs))"
  shows "\<exists>res. fst (performHealthChecks w) = Inr res \<and>
           map hc_url res = spec_endpoints (cfg_healthChecks cfg) \<and>
           (\<forall>i<length res.
              case fetch_reply w (hc_url (res ! i)) of
                Responded ms status \<Rightarrow>
                  if ms < 4000
                  then hc_healthy (res ! i) = (200 \<le> status \<and> status \<le> 299) \<and>
                       hc_status (res ! i) = Some status
                  else \<not> hc_healthy (res ! i) \<and> hc_status (res ! i) = None
              | TransportError \<Rightarrow> \<not> hc_healthy (res ! i) \<and> hc_status (res ! i) = None) \<and>
           (\<forall>u1 u2 t1 t2 s2.
              cfg_healthChecks cfg = Some (JArr [u1, u2]) \<and>
              fetch_reply w u1 = Responded t1 200 \<and> t1 < 4000 \<and>
              fetch_reply w u2 = Responded t2 s2 \<and> 4000 \<le> t2 \<longrightarrow>
              res = [\<lparr>hc_url = u1, hc_healthy = True, hc_status = Some 200\<rparr>,
                     \<lparr>hc_url = u2, hc_healthy = False, hc_status = None\<rparr>])"
proof -
  let ?urls = "spec_endpoints (cfg_healthChecks cfg)"
  let ?res = "map (entry_of w) ?urls"
  have r: "fst (performHealthChecks w) = Inr ?res"
    using assms by (simp add: performHealthChecks_eq iterate_select)
  have u: "hc_url (entry_of w url) = url" for url
    by (simp add: entry_of_def split: fetch_outcome.splits)
  have 1: "map hc_url ?res = ?urls"
    by (simp add: u comp_def)
  have 2: "case fetch_reply w (hc_url (?res ! i)) of
                Responded ms status \<Rightarrow>
                  if ms < 4000
                  then hc_healthy (?res ! i) = (200 \<le> status \<and> status \<le> 299) \<and>
                       hc_status (?res ! i) = Some status
                  else \<not> hc_healthy (?res ! i) \<and> hc_status (?res ! i) = None
              | TransportError \<Rightarrow> \<not> hc_healthy (?res ! i) \<and> hc_status (?res ! i) = None"
    if "i < length ?res" for i
    using that by (simp add: u) (simp add: entry_of_def split: fetch_outcome.splits)
  have 3: "?res = [\<lparr>hc_url = u1, hc_healthy = True, hc_status = Some 200\<rparr>,
                     \<lparr>hc_url = u2, hc_healthy = False, hc_status = None\<rparr>]"
    if "cfg_healthChecks cfg = Some (JArr [u1, u2])" "fetch_reply w u1 = Responded t1 200" "t1 < 4000"
      "fetch_reply w u2 = Responded t2 s2" "4000 \<le> t2" for u1 u2 t1 t2 s2
    using that by (simp add: spec_endpoints_def entry_of_def)
  show ?thesis
  proof (rule exI[where x = "?res"], intro conjI allI impI)
    show "fst (performHealthChecks w) = Inr ?res" by (rule r)
    show "map hc_url ?res = ?urls" by (rule 1)
  next
    fix i assume "i < length ?res"
    then show "case fetch_reply w (hc_url (?res ! i)) of
                Responded ms status \<Rightarrow>
                  if ms < 4000
                  then hc_healthy (?res ! i) = (200 \<le> status \<and> status \<le> 299) \<and>
                       hc_status (?res ! i) = Some status
                  else \<not> hc_healthy (?res ! i) \<and> hc_status (?res ! i) = None
              | TransportError \<Rightarrow> \<not> hc_healthy (?res ! i) \<and> hc_status (?res ! i) = None"
      by (rule 2)
  next
    fix u1 u2 t1 t2 s2
    assume "cfg_healthChecks cfg = Some (JArr [u1, u2]) \<and>
              fetch_reply w u1 = Responded t1 200 \<and> t1 < 4000 \<and>
              fetch_reply w u2 = Responded t2 s2 \<and> 4000 \<le> t2"
    then show "?res = [\<lparr>hc_url = u1, hc_healthy = True, hc_status = Some 200\<rparr>,
                     \<lparr>hc_url = u2, hc_healthy = False, hc_status = None\<rparr>]"
      using 3 by blast
  qed
qed

theorem health_check_aggregation_witness:
  "fst (performHealthChecks probed_world) =
     Inr [\<lparr>hc_url = JStr ''http://a.test/health'', hc_healthy = True, hc_status = Some 200\<rparr>,
          \<lparr>hc_url = JStr ''http://b.test/health'', hc_healthy = False, hc_status = None\<rparr>]"
proof -
  let ?cfg = "empty_config\<lparr>cfg_healthChecks :=
        Some (JArr [JStr ''http://a.test/health'', JStr ''http://b.test/health''])\<rparr>"
  have a: "config_result (config_file probed_world) = Inr ?cfg"
    by (simp add: probed_world_def)
  have b: "cfg_healthChecks ?cfg = None \<or> (\<exists>xs. cfg_healthChecks ?cfg = Some (JArr xs))"
    by simp
  have c: "cfg_healthChecks ?cfg = Some (JArr [JStr ''http://a.test/health'', JStr ''http://b.test/health''])"
    "fetch_reply probed_world (JStr ''http://a.test/health'') = Responded 12 200"
    "fetch_reply probed_world (JStr ''http://b.test/health'') = Responded 5000 200"
    by (simp_all add: probed_world_def)
  from health_check_aggregation[OF a b] obtain res where
    r: "fst (performHealthChecks probed_world) = Inr res"
    and p: "\<forall>u1 u2 t1 t2 s2.
              cfg_healthChecks ?cfg = Some (JArr [u1, u2]) \<and>
              fetch_reply probed_world u1 = Responded t1 200 \<and> t1 < 4000 \<and>
              fetch_reply probed_world u2 = Responded t2 s2 \<and> 4000 \<le> t2 \<longrightarrow>
              res = [\<lparr>hc_url = u1, hc_healthy = True, hc_status = Some 200\<rparr>,
                     \<lparr>hc_url = u2, hc_healthy = False, hc_status = None\<rparr>]"
    by blast
  from p[rule_format, of "JStr ''http://a.test/health''" "JStr ''http://b.test/health''" 12 5000 200] c
  have "res = [\<lparr>hc_url = JStr ''http://a.test/health'', hc_healthy = True, hc_status = Some 200\<rparr>,
          \<lparr>hc_url = JStr ''http://b.test/health'', hc_healthy = False, hc_status = None\<rparr>]"
    by simp
  with r show ?thesis by simp
qed



text \<open>
  Claim C2. The history is append-only. Starting from an absent config file, from one
  holding the empty config \<^verbatim>\<open>{}\<close>, or from a file with no content (which does not
  parse), a run of N successful invocations of \<^verbatim>\<open>applyRoleSetup\<close> leaves
  a history of length N whose entries name the roles of the invocations, in their order.
  No operation removes or reorders entries: an invocation of \<^verbatim>\<open>applyRoleSetup\<close>, successful
  or not, leaves the history it found as a prefix of the one it leaves, and
  \<^verbatim>\<open>runLocalEnvironmentSetup\<close> leaves the history as it found it.
\<close>

theorem history_append_only:
  assumes "config_file w = ConfigAbsent \<or> config_file w = ConfigParsed empty_config \<or>
      config_file w = ConfigMalformed"
    and "apply_all roles w = (outs, w')"
    and "\<forall>out\<in>set outs. \<not> isl out"
  shows "length (persisted_history w') = length roles \<and>
         map he_role (persisted_history w') = roles \<and>
         (\<forall>role v. \<exists>new. persisted_history (snd (applyRoleSetup role v)) = persisted_history v @ new) \<and>
         (\<forall>v. persisted_history (snd (runLocalEnvironmentSetup v)) = persisted_history v)"
proof -
  from assms(1) have e: "persisted_history w = []"
    by (auto simp: persisted_history_def empty_config_def)
  from history_run[OF assms(2)] have l: "length outs = length roles"
    and h: "map he_role (persisted_history w') =
       map he_role (persisted_history w) @ map fst (filter (\<lambda>p. \<not> isl (snd p)) (zip roles outs))"
    by simp_all
  from assms(3) have "filter (\<lambda>p. \<not> isl (snd p)) (zip roles outs) = zip roles outs"
    by (auto simp: filter_id_conv dest: set_zip_rightD)
  with h e l have m: "map he_role (persisted_history w') = roles" by simp
  then have n: "length (persisted_history w') = length roles"
    by (metis length_map)
  have a: "\<exists>new. persisted_history (snd (applyRoleSetup role v)) = persisted_history v @ new"
    for role v
    using history_step[of role v "fst (applyRoleSetup role v)" "snd (applyRoleSetup role v)"]
    by auto
  have b: "persisted_history (snd (runLocalEnvironmentSetup v)) = persisted_history v" for v
    using keeps_runLocalEnvironmentSetup
    by (simp add: keeps_def steady_def persisted_history_def)
  from n m a b show ?thesis by blast
qed

theorem history_append_only_witness:
  "map he_role (persisted_history (snd (apply_all [''frontend-dev'', ''devops''] stocked_world)))
     = [''frontend-dev'', ''devops''] \<and>
   length (persisted_history (snd (apply_all [''frontend-dev'', ''devops''] stocked_world))) = 2"
proof -
  have kA: "map_of DEFAULT_ROLES ''frontend-dev'' = Some frontend_dev"
    and kB: "map_of DEFAULT_ROLES ''devops'' = Some devops"
    by (simp_all add: DEFAULT_ROLES_def)
  have c: "config_result (config_file stocked_world) = Inr empty_config"
    by (simp add: stocked_world_def bare_world_def)
  have sA: "\<forall>k\<in>set (nullish_or (rd_templates frontend_dev) []). internal_templates stocked_world k \<noteq> None"
    "\<forall>k\<in>set (nullish_or (rd_snippets frontend_dev) []). internal_snippets stocked_world k \<noteq> None"
    by (simp_all add: frontend_dev_def stocked_world_def shipped_templates_def shipped_snippets_def)
  from applyRoleSetup_succeeds[OF stocked_manifest kA sA c] obtain w1 c1 where
    a1: "applyRoleSetup ''frontend-dev'' stocked_world = (Inr (role_result ''frontend-dev'' frontend_dev), w1)"
    and w1: "config_file w1 = ConfigParsed c1"
      "roles_file w1 = roles_file stocked_world" "internal_templates w1 = internal_templates stocked_world"
      "internal_snippets w1 = internal_snippets stocked_world"
    by blast
  have m1: "fst (loadRolesManifest w1) = Inr DEFAULT_ROLES"
    using w1(2) by (simp add: loadRolesManifest_eq stocked_world_def bare_world_def)
  have sB: "\<forall>k\<in>set (nullish_or (rd_templates devops) []). internal_templates w1 k \<noteq> None"
    "\<forall>k\<in>set (nullish_or (rd_snippets devops) []). internal_snippets w1 k \<noteq> None"
    using w1(3,4)
    by (simp_all add: devops_def stocked_world_def shipped_templates_def shipped_snippets_def)
  have c1: "config_result (config_file w1) = Inr c1"
    using w1(1) by simp
  from applyRoleSetup_succeeds[OF m1 kB sB c1] obtain w2 where
    a2: "applyRoleSetup ''devops'' w1 = (Inr (role_result ''devops'' devops), w2)"
    by blast
  have run: "apply_all [''frontend-dev'', ''devops''] stocked_world =
      ([Inr (role_result ''frontend-dev'' frontend_dev), Inr (role_result ''devops'' devops)], w2)"
    by (simp add: a1 a2)
  have start: "config_file stocked_world = ConfigAbsent \<or>
      config_file stocked_world = ConfigParsed empty_config \<or>
      config_file stocked_world = ConfigMalformed"
    by (simp add: stocked_world_def bare_world_def)
  have ok: "\<forall>out\<in>set [Inr (role_result ''frontend-dev'' frontend_dev),
      Inr (role_result ''devops'' devops) :: error + RoleSetupResult]. \<not> isl out"
    by simp
  from history_append_only[OF start run ok] show ?thesis
    unfolding run by simp
qed

end
